theory Spec2Isabelle
  imports Complex_Main "HOL-Library.Sublist"
begin

section \<open>Python values used by the AJDC calibration and replay scripts\<close>

text \<open>
  The scripts under \<^verbatim>\<open>Scripts/Analysis/AJDC\<close> are Python. Every exception they can raise
  is a value of \<open>error\<close>; a computation that may raise returns \<open>error + 'a\<close> with
  \<open>Inl\<close> the exception.
\<close>

datatype error =
    FileNotFoundError
  | ValueError
  | IndexError
  | TypeError
  | EOFError
  | NameError
  | RuntimeError

subsection \<open>Strings\<close>

text \<open>
  A Python \<open>str\<close> is a sequence of code points. A \<open>char\<close> stands here for the code
  point below 256 that \<open>of_char\<close> reads, so a \<open>string\<close> is a Python string whose code
  points are all below 256. The three predicates are the interpreter's tables on that range:
  \<open>str.isspace\<close> holds of the code points 9 to 13, 28 to 31, 32, 133 and 160;
  \<open>str.isdigit\<close> of the ten decimal digits and of the superscripts U+00B2, U+00B3 and
  U+00B9; \<open>str.isdecimal\<close> of the ten decimal digits only.
\<close>

definition isspace_char :: "char \<Rightarrow> bool" where
  "isspace_char c =
     (let n = (of_char c :: nat)
      in (9 \<le> n \<and> n \<le> 13) \<or> (28 \<le> n \<and> n \<le> 32) \<or> n = 133 \<or> n = 160)"

definition isdecimal_char :: "char \<Rightarrow> bool" where
  "isdecimal_char c = (let n = (of_char c :: nat) in 48 \<le> n \<and> n \<le> 57)"

definition isdigit_char :: "char \<Rightarrow> bool" where
  "isdigit_char c =
     (let n = (of_char c :: nat)
      in (48 \<le> n \<and> n \<le> 57) \<or> n = 178 \<or> n = 179 \<or> n = 185)"

text \<open>\<open>s.isdigit()\<close>: every character is a digit and there is at least one.\<close>

definition isdigit :: "string \<Rightarrow> bool" where
  "isdigit s = (s \<noteq> [] \<and> list_all isdigit_char s)"

text \<open>
  \<open>s.split()\<close> with no separator: the maximal runs of characters that are not white space,
  in order; leading and trailing white space gives no empty token. \<open>cur\<close> is the token
  being read.
\<close>

fun split_from :: "string \<Rightarrow> string \<Rightarrow> string list" where
  "split_from cur [] = (if cur = [] then [] else [cur])"
| "split_from cur (c # cs) =
     (if isspace_char c
      then (if cur = [] then split_from [] cs else cur # split_from [] cs)
      else split_from (cur @ [c]) cs)"

definition py_split :: "string \<Rightarrow> string list" where
  "py_split s = split_from [] s"

text \<open>
  \<open>int(s)\<close> in base 10. The blanks around the number are stripped (for \<open>int\<close> these
  are the code points 9 to 13, 32, 133 and 160: the separators 28 to 31 are white space for
  \<open>split\<close> and not for \<open>int\<close>), one sign is allowed, and the digits are decimal digits
  with single underscores between them; anything else raises \<open>ValueError\<close>. (The
  interpreter's limit on the number of digits of one conversion, 4300 by default in recent
  versions, is left out.)
\<close>

definition int_blank :: "char \<Rightarrow> bool" where
  "int_blank c =
     (let n = (of_char c :: nat) in (9 \<le> n \<and> n \<le> 13) \<or> n = 32 \<or> n = 133 \<or> n = 160)"

definition strip :: "string \<Rightarrow> string" where
  "strip s = rev (dropWhile int_blank (rev (dropWhile int_blank s)))"

fun digits_ok :: "string \<Rightarrow> bool" where
  "digits_ok [] = False"
| "digits_ok [c] = isdecimal_char c"
| "digits_ok (c # d # cs) =
     (isdecimal_char c \<and>
      (if d = CHR ''_'' then (case cs of [] \<Rightarrow> False | e # _ \<Rightarrow> isdecimal_char e \<and> digits_ok cs)
       else digits_ok (d # cs)))"

definition digit_value :: "char \<Rightarrow> int" where
  "digit_value c = int (of_char c) - 48"

definition decimal_value :: "string \<Rightarrow> int" where
  "decimal_value s = foldl (\<lambda>acc c. 10 * acc + digit_value c) 0 (filter isdecimal_char s)"

definition py_int :: "string \<Rightarrow> error + int" where
  "py_int s =
     (let t = strip s;
          neg = (t \<noteq> [] \<and> hd t = CHR ''-'');
          body = (if t \<noteq> [] \<and> (hd t = CHR ''-'' \<or> hd t = CHR ''+'') then tl t else t)
      in if digits_ok body
         then Inr (if neg then - decimal_value body else decimal_value body)
         else Inl ValueError)"

text \<open>
  \<open>sub in s\<close> on strings, \<open>s.startswith(p)\<close>, and the slice \<open>s[i:j]\<close> with Python's
  reading of negative and out-of-range bounds.
\<close>

fun contains :: "string \<Rightarrow> string \<Rightarrow> bool" where
  "contains sub [] = (sub = [])"
| "contains sub (c # cs) = (take (length sub) (c # cs) = sub \<or> contains sub cs)"

definition startswith :: "string \<Rightarrow> string \<Rightarrow> bool" where
  "startswith p s = (take (length p) s = p)"

definition slice_bound :: "nat \<Rightarrow> int \<Rightarrow> nat" where
  "slice_bound n i = (if i < 0 then nat (int n + i) else min n (nat i))"

definition slice :: "string \<Rightarrow> int \<Rightarrow> int \<Rightarrow> string" where
  "slice s i j = (let a = slice_bound (length s) i; b = slice_bound (length s) j
                  in take (b - a) (drop a s))"

text \<open>
  \<open>re.findall(r'\d+', element)\<close>: the maximal runs of decimal digits, in order.
\<close>

fun findall_digits :: "string \<Rightarrow> string \<Rightarrow> string list" where
  "findall_digits cur [] = (if cur = [] then [] else [cur])"
| "findall_digits cur (c # cs) =
     (if isdecimal_char c then findall_digits (cur @ [c]) cs
      else (if cur = [] then findall_digits [] cs else cur # findall_digits [] cs))"

text \<open>
  \<open>tools.utils.extract_number\<close>: 0 for a pilot subject, else the first number in the name,
  else \<open>None\<close>. A run of decimal digits always converts.
\<close>

definition extract_number :: "string \<Rightarrow> int option" where
  "extract_number element =
     (let chiffres = findall_digits [] element
      in if startswith ''sub-Pilote'' element then Some 0
         else if chiffres \<noteq> [] then Some (decimal_value (hd chiffres))
         else None)"

subsection \<open>Raising computations\<close>

text \<open>
  Sequencing: the first exception ends the computation. \<open>bind\<close> chains pure steps,
  \<open>bindw\<close> steps that also change the world (the files, the console); the world at the
  moment of an exception is kept, as everything done before it stays done.
\<close>

definition bind :: "error + 'a \<Rightarrow> ('a \<Rightarrow> error + 'b) \<Rightarrow> error + 'b" where
  "bind m f = (case m of Inl e \<Rightarrow> Inl e | Inr x \<Rightarrow> f x)"

definition bindw ::
  "(error + 'a) \<times> 'w \<Rightarrow> ('a \<Rightarrow> 'w \<Rightarrow> (error + 'b) \<times> 'w) \<Rightarrow> (error + 'b) \<times> 'w" where
  "bindw m f = (case m of (Inl e, w) \<Rightarrow> (Inl e, w) | (Inr x, w) \<Rightarrow> f x w)"

text \<open>A \<open>for\<close> loop whose body may raise and changes the world.\<close>

fun for_each :: "('x \<Rightarrow> 'w \<Rightarrow> (error + unit) \<times> 'w) \<Rightarrow> 'x list \<Rightarrow> 'w \<Rightarrow> (error + unit) \<times> 'w" where
  "for_each body [] w = (Inr (), w)"
| "for_each body (x # xs) w = bindw (body x w) (\<lambda>_. for_each body xs)"

subsection \<open>The operator's answers\<close>

text \<open>
  \<open>calibration.py\<close>, lines 110 to 115. Each answer is split on white space; the
  comprehension \<open>[int(num) for num in tokens if num.isdigit()]\<close> skips the tokens that fail
  \<open>isdigit\<close> and converts the others in order, so a conversion that raises ends it.
\<close>

fun components :: "string list \<Rightarrow> error + int list" where
  "components [] = Inr []"
| "components (num # nums) =
     (if isdigit num
      then bind (py_int num) (\<lambda>i. bind (components nums) (\<lambda>is. Inr (i # is)))
      else components nums)"

definition operator_components :: "string \<Rightarrow> error + int list" where
  "operator_components answer = components (py_split answer)"

text \<open>
  Lines 118 to 120: \<open>bad_sources = blink + saccade\<close>, then the elements whose text holds
  \<open>NaN\<close> are removed. The elements are integers, whose text is a sign and decimal digits,
  so that filter keeps every element.
\<close>

definition bad_sources_of_calibration :: "int list \<Rightarrow> int list \<Rightarrow> int list" where
  "bad_sources_of_calibration blink saccade = blink @ saccade"

section \<open>The decomposition object\<close>

subsection \<open>Arrays\<close>

text \<open>
  A two-dimensional array is the list of its rows. The element type \<open>'a\<close> stands for the
  64-bit floats of the arrays: it has a zero, a one, an addition and a multiplication and
  no law is assumed of them, so what is proved holds whatever the rounding of the
  arithmetic. \<open>A @ B\<close> raises \<open>ValueError\<close> when the inner dimensions differ.
\<close>

type_synonym 'a matrix = "'a list list"

definition n_cols :: "'a matrix \<Rightarrow> nat" where
  "n_cols X = (case X of [] \<Rightarrow> 0 | r # _ \<Rightarrow> length r)"

definition dot :: "'a::{zero,plus,times} list \<Rightarrow> 'a list \<Rightarrow> 'a" where
  "dot r c = foldr (\<lambda>(a, b) acc. a * b + acc) (zip r c) 0"

definition matmul :: "'a::{zero,plus,times} matrix \<Rightarrow> 'a matrix \<Rightarrow> error + 'a matrix" where
  "matmul A B =
     (if list_all (\<lambda>r. length r = length B) A
      then Inr (map (\<lambda>r. map (\<lambda>j. dot r (map (\<lambda>b. b ! j) B)) [0..<n_cols B]) A)
      else Inl ValueError)"

definition eye :: "nat \<Rightarrow> 'a::{zero,one} matrix" where
  "eye n = map (\<lambda>i. map (\<lambda>j. if i = j then 1 else 0) [0..<n]) [0..<n]"

text \<open>
  An index into an axis of length \<open>n\<close>: a negative index counts from the end, and an index
  outside \<open>-n .. n-1\<close> raises \<open>IndexError\<close>.
\<close>

definition py_index :: "nat \<Rightarrow> int \<Rightarrow> error + nat" where
  "py_index n s =
     (if 0 \<le> s \<and> s < int n then Inr (nat s)
      else if - int n \<le> s \<and> s < 0 then Inr (nat (s + int n))
      else Inl IndexError)"

subsection \<open>AJDC\<close>

text \<open>
  The object of class \<open>AJDC\<close> (pyriemann) as the scripts use it: the arguments of its
  constructor, and the attributes a fit sets and \<open>denoising.py\<close> restores. (The attributes
  \<open>n_channels_\<close>, \<open>n_sources_\<close>, \<open>forward_filters_\<close>, \<open>backward_filters_\<close> and \<open>freqs_\<close>
  are written here without their final underscore.) \<open>window\<close> and \<open>fs\<close> receive a number
  at calibration and an array at replay, hence \<open>pyval\<close>.
\<close>

datatype 'a pyval = Number rat | Array "'a list"

datatype dim_red = Expl_var rat | Max_cond nat

record 'a ajdc_config =
  window :: "'a pyval"
  overlap :: rat
  fmin :: int
  fmax :: int
  fs :: "'a pyval"
  dim_red :: dim_red

record 'a ajdc =
  config :: "'a ajdc_config"
  n_channels :: nat
  n_sources :: nat
  forward_filters :: "'a matrix"
  backward_filters :: "'a matrix"
  freqs :: "'a list"

text \<open>
  \<open>AJDC.transform\<close> and \<open>AJDC.inverse_transform\<close> on one segment (the scripts add a
  leading axis of length one with \<open>np.newaxis\<close> and remove it with \<open>[0]\<close>; it is left
  out). \<open>transform\<close> checks the number of channels and applies the forward filters.
  \<open>inverse_transform\<close> checks the number of sources, starts from the identity matrix,
  executes \<open>denois[s, s] = 0\<close> for every \<open>s\<close> of \<open>supp\<close> in order, and returns
  \<open>backward_filters_ @ denois @ X\<close>.
\<close>

definition transform :: "'a::{zero,plus,times} ajdc \<Rightarrow> 'a matrix \<Rightarrow> error + 'a matrix" where
  "transform a X =
     (if length X \<noteq> n_channels a then Inl ValueError
      else matmul (forward_filters a) X)"

fun suppress :: "'a::zero matrix \<Rightarrow> int list \<Rightarrow> error + 'a matrix" where
  "suppress denois [] = Inr denois"
| "suppress denois (s # supp) =
     bind (py_index (length denois) s) (\<lambda>k. suppress (denois[k := (denois ! k)[k := 0]]) supp)"

definition inverse_transform ::
  "'a::{zero,one,plus,times} ajdc \<Rightarrow> 'a matrix \<Rightarrow> int list \<Rightarrow> error + 'a matrix" where
  "inverse_transform a X supp =
     (if length X \<noteq> n_sources a then Inl ValueError
      else bind (suppress (eye (n_sources a)) supp) (\<lambda>denois.
           bind (matmul (backward_filters a) denois) (\<lambda>BD.
           matmul BD X)))"

section \<open>Recordings\<close>

text \<open>
  A recording (\<open>mne.io.Raw\<close>): the channel names, the sampling rate in Hz, the reference
  timestamp \<open>info['meas_date']\<close>, the samples (one row per channel) and the annotations.
  Times are exact seconds. The first sample of a recording is sample 0, as it is for the
  files the scripts read and for the arrays they build (\<open>first_samp=0\<close>).
\<close>

record annotation =
  onset :: rat
  duration :: rat
  description :: string

record 'a raw =
  ch_names :: "string list"
  sfreq :: nat
  meas_date :: "int option"
  data :: "'a matrix"
  annotations :: "annotation list"

definition n_times :: "'a raw \<Rightarrow> nat" where
  "n_times signal = n_cols (data signal)"

definition raw_duration :: "'a raw \<Rightarrow> rat" where
  "raw_duration signal = of_nat (n_times signal) / of_nat (sfreq signal)"

subsection \<open>Fixed-length epochs\<close>

text \<open>
  \<open>mne.make_fixed_length_epochs(signal, duration=0.5, preload=True)\<close>. With \<open>L\<close> the
  number of samples in 500 ms, the events are the samples \<open>0, L, 2 L, ...\<close> up to the last
  one that leaves \<open>L\<close> samples in the recording, and \<open>ValueError\<close> is raised when there is
  none. Epoch \<open>k\<close> is the \<open>L\<close> samples from \<open>k L\<close> of every channel. The call leaves
  \<open>reject_by_annotation\<close> at its default \<open>True\<close>: on loading, an epoch is dropped when an
  annotation whose description starts with \<open>bad\<close> (in any case) overlaps it.

  \<open>L\<close> is half the sampling rate. For an odd or fractional rate the library rounds in
  floating point; such rates, and rates below 2 Hz, are outside what is stated below.
\<close>

definition is_bad :: "string \<Rightarrow> bool" where
  "is_bad d =
     (case d of
        b # a # c # _ \<Rightarrow>
          (b = CHR ''b'' \<or> b = CHR ''B'') \<and> (a = CHR ''a'' \<or> a = CHR ''A'') \<and>
          (c = CHR ''d'' \<or> c = CHR ''D'')
      | _ \<Rightarrow> False)"

definition bad_segment :: "'a raw \<Rightarrow> nat \<Rightarrow> nat \<Rightarrow> bool" where
  "bad_segment signal start stop =
     list_ex (\<lambda>a. is_bad (description a) \<and>
                   onset a < of_nat stop / of_nat (sfreq signal) \<and>
                   onset a + duration a > of_nat start / of_nat (sfreq signal))
       (annotations signal)"

definition epoch_samples :: "'a raw \<Rightarrow> nat" where
  "epoch_samples signal = sfreq signal div 2"

definition epoch_at :: "'a raw \<Rightarrow> nat \<Rightarrow> 'a matrix" where
  "epoch_at signal k =
     (let L = epoch_samples signal in map (\<lambda>row. take L (drop (k * L) row)) (data signal))"

definition make_fixed_length_epochs :: "'a raw \<Rightarrow> error + 'a matrix list" where
  "make_fixed_length_epochs signal =
     (let n = n_times signal; L = epoch_samples signal
      in if L = 0 \<or> n < L then Inl ValueError
         else Inr (map (epoch_at signal)
                    (filter (\<lambda>k. \<not> bad_segment signal (k * L) (k * L + L)) [0..<n div L])))"

subsection \<open>Building and joining recordings\<close>

text \<open>
  \<open>mne.io.RawArray(data, info, first_samp=0)\<close>: a recording with a copy of \<open>info\<close> (the
  channels, the rate and the reference timestamp of the recording \<open>info\<close> comes from) and
  no annotation; \<open>ValueError\<close> when the array has not one row per channel.
\<close>

definition RawArray :: "'a matrix \<Rightarrow> 'a raw \<Rightarrow> error + 'a raw" where
  "RawArray d info =
     (if length d \<noteq> length (ch_names info) then Inl ValueError
      else Inr (info\<lparr>data := d, annotations := []\<rparr>))"

text \<open>
  \<open>mne.concatenate_raws(raws, preload=True)\<close> appends the samples of the later recordings
  to the first one, channel by channel, and returns the first; an empty list has no first
  element. (The boundary annotations it adds at the joins are left out: the statement
  after it replaces the annotations.)
\<close>

definition hstack :: "'a matrix \<Rightarrow> 'a matrix \<Rightarrow> 'a matrix" where
  "hstack A B = map (\<lambda>(r, s). r @ s) (zip A B)"

definition concatenate_raws :: "'a raw list \<Rightarrow> error + 'a raw" where
  "concatenate_raws raws =
     (case raws of
        [] \<Rightarrow> Inl IndexError
      | r # rs \<Rightarrow> Inr (r\<lparr>data := foldl hstack (data r) (map data rs)\<rparr>))"

text \<open>
  \<open>Raw.set_annotations(annotations)\<close> stores a copy of the annotations cropped to the
  time range of the recording, from 0 to its duration: an annotation that begins after the
  end (or ends before the start) is omitted, and one that reaches outside is limited to the
  range. The others are stored as they are.
\<close>

definition crop_annotation :: "rat \<Rightarrow> rat \<Rightarrow> annotation \<Rightarrow> annotation" where
  "crop_annotation tmin tmax a =
     (if onset a < tmin \<or> tmax < onset a + duration a
      then a\<lparr>onset := max tmin (onset a),
             duration := min tmax (onset a + duration a) - max tmin (onset a)\<rparr>
      else a)"

definition crop_annotations :: "rat \<Rightarrow> rat \<Rightarrow> annotation list \<Rightarrow> annotation list" where
  "crop_annotations tmin tmax anns =
     map (crop_annotation tmin tmax)
       (filter (\<lambda>a. \<not> (tmax < onset a \<or> onset a + duration a < tmin)) anns)"

definition set_annotations :: "'a raw \<Rightarrow> annotation list \<Rightarrow> 'a raw" where
  "set_annotations signal anns =
     signal\<lparr>annotations := crop_annotations 0 (raw_duration signal) anns\<rparr>"

section \<open>Replay denoising of one recording\<close>

text \<open>
  \<open>denoising.py\<close>, lines 90 to 106, for a prepared recording \<open>signal\<close>: the epochs, each
  transformed to the sources and back with \<open>bad_sources\<close> suppressed and wrapped in a
  recording with the information of \<open>signal\<close>; the concatenation of these in order; the
  annotations of \<open>signal\<close> set on the result.
\<close>

definition denoise_epoch ::
  "'a::{zero,one,plus,times} ajdc \<Rightarrow> int list \<Rightarrow> 'a raw \<Rightarrow> 'a matrix \<Rightarrow> error + 'a raw" where
  "denoise_epoch a bad_sources signal epoch =
     bind (transform a epoch) (\<lambda>sources.
     bind (inverse_transform a sources bad_sources) (\<lambda>denoised_data.
     RawArray denoised_data signal))"

fun map_raising :: "('x \<Rightarrow> error + 'y) \<Rightarrow> 'x list \<Rightarrow> error + 'y list" where
  "map_raising f [] = Inr []"
| "map_raising f (x # xs) = bind (f x) (\<lambda>y. bind (map_raising f xs) (\<lambda>ys. Inr (y # ys)))"

definition replay ::
  "'a::{zero,one,plus,times} ajdc \<Rightarrow> int list \<Rightarrow> 'a raw \<Rightarrow> error + 'a raw" where
  "replay a bad_sources signal =
     bind (make_fixed_length_epochs signal) (\<lambda>epochs.
     bind (map_raising (denoise_epoch a bad_sources signal) epochs) (\<lambda>raws.
     bind (concatenate_raws raws) (\<lambda>signal_corrected.
     Inr (set_annotations signal_corrected (annotations signal)))))"

section \<open>The parameter files\<close>

text \<open>
  The archive \<open>tools.data_manager.save_ajdc_parameters\<close> writes with \<open>np.savez\<close>, one
  field per keyword. (The keys \<open>sfreq\<close>, \<open>fmax\<close>, \<open>fmin\<close> and \<open>overlap\<close> are written
  with the suffix \<open>_key\<close>.) The key \<open>sfreq\<close> receives \<open>ajdc.freqs_\<close>. The two lists of
  components are arrays of integers; the indices are taken to fit the 64 bits of an array
  element.
\<close>

record 'a npz =
  n_channel :: nat
  sfreq_key :: "'a list"
  fmax_key :: int
  fmin_key :: int
  n_source :: nat
  overlap_key :: rat
  demixage :: "'a matrix"
  mixage :: "'a matrix"
  blinks_components :: "int list"
  saccades_components :: "int list"

definition archive :: "'a ajdc \<Rightarrow> int list \<Rightarrow> int list \<Rightarrow> 'a npz" where
  "archive a blink saccade =
     \<lparr>n_channel = n_channels a,
      sfreq_key = freqs a,
      fmax_key = fmax (config a),
      fmin_key = fmin (config a),
      n_source = n_sources a,
      overlap_key = overlap (config a),
      demixage = forward_filters a,
      mixage = backward_filters a,
      blinks_components = blink,
      saccades_components = saccade\<rparr>"

text \<open>
  \<open>denoising.py\<close>, lines 65 to 72: a new object is constructed from the archive, with
  \<open>dim_red={'max_cond': 100}\<close>, and the fitted attributes are assigned from the archive.
  No fit is run.
\<close>

definition restore :: "'a npz \<Rightarrow> 'a ajdc" where
  "restore ajdc_parameters =
     \<lparr>config =
        \<lparr>window = Array (sfreq_key ajdc_parameters),
         overlap = overlap_key ajdc_parameters,
         fmin = fmin_key ajdc_parameters,
         fmax = fmax_key ajdc_parameters,
         fs = Array (sfreq_key ajdc_parameters),
         dim_red = Max_cond 100\<rparr>,
      n_channels = n_channel ajdc_parameters,
      n_sources = n_source ajdc_parameters,
      forward_filters = demixage ajdc_parameters,
      backward_filters = mixage ajdc_parameters,
      freqs = sfreq_key ajdc_parameters\<rparr>"

text \<open>
  \<open>denoising.py\<close>, lines 75 and 76:
  \<^verbatim>\<open>bad_sources = [ajdc_parameters['blinks_components'].flatten()]\<close>
  \<^verbatim>\<open>bad_sources = [int(b) for b in bad_sources if not np.isnan(b)]\<close>
  The first list has one element, the whole array. \<open>np.isnan\<close> of an array of integers is
  the array of as many \<open>False\<close>. \<open>not\<close> takes the truth value of that array: the value of
  its element when it has one, \<open>ValueError\<close> when it has two or more, and \<open>False\<close> (with
  a deprecation warning; an error in later versions of the library) when it is empty.
  \<open>int\<close> of an array is its element when it has exactly one, and \<open>TypeError\<close> otherwise.
\<close>

definition np_isnan :: "int list \<Rightarrow> bool list" where
  "np_isnan b = map (\<lambda>_. False) b"

definition truth_value :: "bool list \<Rightarrow> error + bool" where
  "truth_value b = (case b of [] \<Rightarrow> Inr False | [x] \<Rightarrow> Inr x | _ \<Rightarrow> Inl ValueError)"

definition int_of_array :: "int list \<Rightarrow> error + int" where
  "int_of_array b = (case b of [x] \<Rightarrow> Inr x | _ \<Rightarrow> Inl TypeError)"

fun ints_not_nan :: "int list list \<Rightarrow> error + int list" where
  "ints_not_nan [] = Inr []"
| "ints_not_nan (b # bs) =
     bind (truth_value (np_isnan b)) (\<lambda>nan.
       if \<not> nan
       then bind (int_of_array b) (\<lambda>i. bind (ints_not_nan bs) (\<lambda>is. Inr (i # is)))
       else ints_not_nan bs)"

definition bad_sources_of_replay :: "'a npz \<Rightarrow> error + int list" where
  "bad_sources_of_replay ajdc_parameters =
     ints_not_nan [blinks_components ajdc_parameters]"

section \<open>Files and console\<close>

text \<open>
  \<open>os.path.join\<close> (POSIX): a part that starts with a slash discards what precedes it;
  otherwise one slash separates the parts. A path names a file by its components: the
  strings between slashes, empty ones dropped, with an empty first component for an
  absolute path. Two spellings with the same components are the same file.
\<close>

definition os_path_join :: "string \<Rightarrow> string \<Rightarrow> string" where
  "os_path_join a b =
     (if startswith ''/'' b then b
      else if a = [] \<or> last a = CHR ''/'' then a @ b
      else a @ ''/'' @ b)"

fun split_slash :: "string \<Rightarrow> string \<Rightarrow> string list" where
  "split_slash cur [] = (if cur = [] then [] else [cur])"
| "split_slash cur (c # cs) =
     (if c = CHR ''/''
      then (if cur = [] then split_slash [] cs else cur # split_slash [] cs)
      else split_slash (cur @ [c]) cs)"

definition path_components :: "string \<Rightarrow> string list" where
  "path_components p = (if startswith ''/'' p then [[]] else []) @ split_slash [] p"

text \<open>
  The \<open>path\<close> dictionary of \<open>main.py\<close>, with the three entries the two scripts read.
\<close>

record paths =
  raw_data :: string
  ajdc_path :: string
  mne_reports_path :: string

text \<open>
  What the scripts read and write outside themselves: the working directory of the
  process, the lines the operator will type, the recordings of each directory, the
  parameter files, and the logs of what was read, exported, reported and printed, in order.
  Directories are named by absolute paths, so that a name denotes the same directory
  before and after \<open>os.chdir\<close>.
\<close>

record 'a world =
  cwd :: string
  stdin :: "string list"
  listdir :: "string \<Rightarrow> string list option"
  recordings :: "string \<Rightarrow> string \<Rightarrow> 'a raw option"
  parameters :: "string list \<Rightarrow> 'a npz option"
  loaded :: "(string \<times> string) list"
  exported :: "(string list \<times> 'a raw) list"
  reports :: "string list list"
  console :: "string list"

definition py_input :: "'a world \<Rightarrow> (error + string) \<times> 'a world" where
  "py_input w =
     (case stdin w of
        [] \<Rightarrow> (Inl EOFError, w)
      | line # rest \<Rightarrow> (Inr line, w\<lparr>stdin := rest\<rparr>))"

definition print :: "string \<Rightarrow> 'a world \<Rightarrow> 'a world" where
  "print s w = w\<lparr>console := console w @ [s]\<rparr>"

definition os_chdir :: "string \<Rightarrow> 'a world \<Rightarrow> (error + unit) \<times> 'a world" where
  "os_chdir directory w =
     (case listdir w directory of
        None \<Rightarrow> (Inl FileNotFoundError, w)
      | Some _ \<Rightarrow> (Inr (), w\<lparr>cwd := directory\<rparr>))"

definition os_listdir :: "string \<Rightarrow> 'a world \<Rightarrow> (error + string list) \<times> 'a world" where
  "os_listdir directory w =
     (case listdir w directory of
        None \<Rightarrow> (Inl FileNotFoundError, w)
      | Some files \<Rightarrow> (Inr files, w))"

text \<open>\<open>tools.data_manager.load_data\<close>, on a file name of the working directory.\<close>

definition load_data :: "string \<Rightarrow> 'a world \<Rightarrow> (error + 'a raw) \<times> 'a world" where
  "load_data file w =
     (case recordings w (cwd w) file of
        None \<Rightarrow> (Inl FileNotFoundError, w)
      | Some signal \<Rightarrow> (Inr signal, w\<lparr>loaded := loaded w @ [(cwd w, file)]\<rparr>))"

text \<open>
  \<open>tools.data_manager.export_signal\<close>, \<open>save_mne_reports\<close> and
  \<open>save_ajdc_parameters\<close>: each creates the directory when it is missing and writes the
  whole file at \<open>os.path.join(path, filename)\<close>. \<open>np.load\<close> of a parameter file raises
  \<open>FileNotFoundError\<close> when there is none.
\<close>

definition export_signal ::
  "'a raw \<Rightarrow> string \<Rightarrow> string \<Rightarrow> 'a world \<Rightarrow> (error + unit) \<times> 'a world" where
  "export_signal signal path filename w =
     (Inr (), w\<lparr>exported := exported w @ [(path_components (os_path_join path filename), signal)]\<rparr>)"

definition save_mne_reports :: "string \<Rightarrow> string \<Rightarrow> 'a world \<Rightarrow> (error + unit) \<times> 'a world" where
  "save_mne_reports path filename w =
     (Inr (), w\<lparr>reports := reports w @ [path_components (os_path_join path filename)]\<rparr>)"

definition save_ajdc_parameters ::
  "'a ajdc \<Rightarrow> int list \<Rightarrow> int list \<Rightarrow> string \<Rightarrow> string \<Rightarrow> 'a world \<Rightarrow> (error + unit) \<times> 'a world" where
  "save_ajdc_parameters a blink saccade path filename w =
     (Inr (), w\<lparr>parameters :=
                  (parameters w)(path_components (os_path_join path filename) \<mapsto>
                                   archive a blink saccade)\<rparr>)"

definition np_load :: "string \<Rightarrow> 'a world \<Rightarrow> (error + 'a npz) \<times> 'a world" where
  "np_load parameters_path w =
     (case parameters w (path_components parameters_path) of
        None \<Rightarrow> (Inl FileNotFoundError, w)
      | Some ajdc_parameters \<Rightarrow> (Inr ajdc_parameters, w))"

section \<open>The signal-preparation collaborators\<close>

text \<open>
  The numerical steps the two scripts call and that lie outside the calibration, storage
  and replay subsystem: \<open>tools.preprocessing.preparing_data_BetaPark\<close> (subject number,
  \<open>average_reference\<close>) and \<open>preprocessing\<close> (\<open>notch\<close>, \<open>high_pass_filter\<close>,
  \<open>average_reference\<close>), which change the recording in place and return the changed
  recording here; \<open>Raw.crop(tmin, tmax)\<close>; \<open>float\<close> of a string; and the fit,
  \<open>AJDC(...).fit(X)\<close>, from the constructor's arguments and the calibration samples to the
  fitted object. Each may raise. They are parameters of what follows.
\<close>

record 'a env =
  preparing_data_BetaPark :: "int option \<Rightarrow> bool \<Rightarrow> 'a raw \<Rightarrow> error + 'a raw"
  preprocessing :: "bool \<Rightarrow> rat option \<Rightarrow> bool \<Rightarrow> 'a raw \<Rightarrow> error + 'a raw"
  crop :: "rat \<Rightarrow> rat \<Rightarrow> 'a raw \<Rightarrow> error + 'a raw"
  py_float :: "string \<Rightarrow> error + rat"
  fit :: "'a ajdc_config \<Rightarrow> 'a matrix \<Rightarrow> error + 'a ajdc"

section \<open>Replay denoising: \<open>denoising.py\<close>\<close>

text \<open>
  Lines 83 to 111, the body of the loop over the files of the subject: the recording is
  read, prepared and filtered, replayed, and exported under the name of the file up to its
  first dot followed by \<open>_denoised.vhdr\<close>.
\<close>

definition denoise_file ::
  "'a::{zero,one,plus,times} env \<Rightarrow> 'a ajdc \<Rightarrow> int list \<Rightarrow> string \<Rightarrow> string \<Rightarrow> string \<Rightarrow> paths \<Rightarrow>
     string \<Rightarrow> 'a world \<Rightarrow> (error + unit) \<times> 'a world" where
  "denoise_file env a bad_sources subject condition frequencie_file path file w0 =
     bindw (load_data file w0) (\<lambda>signal w.
     bindw (preparing_data_BetaPark env (extract_number subject) True signal, w) (\<lambda>signal w.
     bindw (preprocessing env True (Some (1 / 2)) True signal, w) (\<lambda>signal w.
     bindw (replay a bad_sources signal, w) (\<lambda>signal_corrected w.
     export_signal signal_corrected
       (ajdc_path path @ ''/_DENOISING_EEG_/'' @ frequencie_file @ ''/'' @ condition @ ''/'' @ subject)
       (takeWhile (\<lambda>c. c \<noteq> CHR ''.'') file @ ''_denoised.vhdr'') w))))"

text \<open>
  \<open>process_denoising\<close>: the parameter file is loaded first, the object restored, the
  components to suppress extracted; then the directory of the subject becomes the working
  directory and each of its files whose name contains \<open>.vhdr\<close> is denoised.
\<close>

definition parameters_path_of :: "paths \<Rightarrow> string \<Rightarrow> string \<Rightarrow> string \<Rightarrow> string" where
  "parameters_path_of path frequencie_file condition subject =
     os_path_join (os_path_join (os_path_join (os_path_join (ajdc_path path) ''_PARAMETERS_'')
       frequencie_file) condition) (subject @ ''parameters_AJDC.npz'')"

definition process_denoising ::
  "'a::{zero,one,plus,times} env \<Rightarrow> string \<Rightarrow> string \<Rightarrow> string \<Rightarrow> paths \<Rightarrow> 'a world \<Rightarrow>
     (error + unit) \<times> 'a world" where
  "process_denoising env subject condition frequencie_file path w0 =
     bindw (np_load (parameters_path_of path frequencie_file condition subject) w0)
       (\<lambda>ajdc_parameters w.
     bindw (bad_sources_of_replay ajdc_parameters, w) (\<lambda>bad_sources w.
     bindw (os_chdir (raw_data path @ subject) w) (\<lambda>_ w.
     bindw (os_listdir (cwd w) w) (\<lambda>files w.
     for_each
       (denoise_file env (restore ajdc_parameters) bad_sources subject condition frequencie_file path)
       (filter (contains ''.vhdr'') files) w))))"

text \<open>
  \<open>denoise_ajdc\<close>: for every condition and every subject, the subjects numbered 0, 1, 9
  and 10 are skipped with a message and the others are processed. Nothing catches an
  exception.
\<close>

definition not_available :: "string \<Rightarrow> bool" where
  "not_available subject = (extract_number subject \<in> set [Some 0, Some 1, Some 9, Some 10])"

definition denoise_ajdc ::
  "'a::{zero,one,plus,times} env \<Rightarrow> string list \<Rightarrow> string list \<Rightarrow> string \<Rightarrow> paths \<Rightarrow> string \<Rightarrow>
     'a world \<Rightarrow> (error + unit) \<times> 'a world" where
  "denoise_ajdc env subjects conditions frequencie_file path dataset =
     for_each (\<lambda>condition.
       for_each (\<lambda>subject w.
         if not_available subject then (Inr (), print ''Data not available'' w)
         else process_denoising env subject condition frequencie_file path w) subjects)
       conditions"

section \<open>Calibration: \<open>calibration.py\<close>\<close>

text \<open>
  \<open>str(s).zfill(2)\<close> for a natural number, and the names \<open>S00\<close>, \<open>S01\<close>, ... of the
  sources.
\<close>

fun str_nat :: "nat \<Rightarrow> string" where
  "str_nat n =
     (if n < 10 then [char_of (48 + n)] else str_nat (n div 10) @ [char_of (48 + n mod 10)])"

definition zfill2 :: "string \<Rightarrow> string" where
  "zfill2 s = replicate (2 - length s) (CHR ''0'') @ s"

definition sr_names_of :: "nat \<Rightarrow> string list" where
  "sr_names_of n = map (\<lambda>s. ''S'' @ zfill2 (str_nat s)) [0..<n]"

text \<open>
  \<open>mne.create_info\<close>: the information of a recording with the given channels and rate,
  without reference timestamp. \<open>Raw.set_meas_date\<close> sets the timestamp.
\<close>

definition create_info :: "string list \<Rightarrow> nat \<Rightarrow> 'a raw" where
  "create_info names rate =
     \<lparr>ch_names = names, sfreq = rate, meas_date = None, data = [], annotations = []\<rparr>"

definition set_meas_date :: "'a raw \<Rightarrow> int option \<Rightarrow> 'a raw" where
  "set_meas_date signal d = signal\<lparr>meas_date := d\<rparr>"

text \<open>
  \<open>tools.preprocessing.crop_calibration_signal_BetaPark\<close>. For the hand-observation
  condition the window starts 5 s after the last annotation whose description contains
  \<open>' 16'\<close> and lasts 20 s; with no such annotation the names \<open>tmin\<close> and \<open>tmax\<close> are
  unbound. For the clean condition the operator types the two bounds. Any other condition
  leaves the recording as it is.
\<close>

definition crop_calibration_signal_BetaPark ::
  "'a env \<Rightarrow> 'a raw \<Rightarrow> string \<Rightarrow> 'a world \<Rightarrow> (error + 'a raw) \<times> 'a world" where
  "crop_calibration_signal_BetaPark env signal condition w0 =
     (if condition = ''_HAND_OBSERVATION_'' then
        (case filter (\<lambda>annot. contains '' 16'' (description annot)) (annotations signal) of
           [] \<Rightarrow> (Inl NameError, w0)
         | marks \<Rightarrow> (crop env (onset (last marks) + 5) (onset (last marks) + 5 + 20) signal, w0))
      else if condition = ''_CLEAN_'' then
        bindw (py_input w0) (\<lambda>begin_str w.
        bindw (py_float env begin_str, w) (\<lambda>tmin w.
        bindw (py_input w) (\<lambda>end_str w.
        bindw (py_float env end_str, w) (\<lambda>tmax w.
        (crop env tmin tmax signal, w)))))
      else (Inr signal, w0))"

text \<open>
  Lines 74 to 142, what is done with the calibration recording \<open>signal\<close>: it is
  filtered (in place: the changed recording is returned) and exported; the object is
  constructed with the band read from \<open>frequencie_file\<close> and fitted; the sources are
  computed, wrapped and exported; the operator names the blink and the saccade components;
  the parameters are saved; the calibration recording is reconstructed without the bad
  sources and exported; the report is saved. (The spectra and figures of lines 99 to 107
  go to the report only and are left out.)
\<close>

definition calibrate_signal ::
  "'a::{zero,one,plus,times} env \<Rightarrow> string \<Rightarrow> string \<Rightarrow> string \<Rightarrow> paths \<Rightarrow> 'a raw \<Rightarrow> 'a world \<Rightarrow>
     (error + 'a raw) \<times> 'a world" where
  "calibrate_signal env subject condition frequencie_file path signal0 w0 =
     bindw (preprocessing env True (Some 1) False signal0, w0) (\<lambda>signal w.
     bindw (export_signal signal
              (ajdc_path path @ ''/_CALIBRATION_DATA_/'' @ frequencie_file @ ''/'' @ condition @ ''/'' @ subject)
              (subject @ ''_calibration_data.vhdr'') w) (\<lambda>_ w.
     bindw (py_int (slice frequencie_file (- 5) (- 4)), w) (\<lambda>band_min w.
     bindw (py_int (slice frequencie_file (- 3) (- 1)), w) (\<lambda>band_max w.
     bindw (fit env
              \<lparr>window = Number (of_nat (sfreq signal)), overlap = 1 / 2, fmin = band_min,
               fmax = band_max, fs = Number (of_nat (sfreq signal)),
               dim_red = Expl_var (99 / 100)\<rparr>
              (data signal), w) (\<lambda>a w.
     bindw (transform a (data signal), w) (\<lambda>source_signal w.
     bindw (RawArray source_signal (create_info (sr_names_of (n_sources a)) (sfreq signal)), w)
       (\<lambda>source0 w.
     let source = set_annotations (set_meas_date source0 (meas_date signal)) (annotations signal) in
     bindw (export_signal source
              (ajdc_path path @ ''/_SOURCES_/'' @ frequencie_file @ ''/'' @ condition)
              (subject @ ''_components_data.vhdr'') w) (\<lambda>_ w.
     bindw (py_input w) (\<lambda>blink_answer w.
     bindw (py_input w) (\<lambda>saccade_answer w.
     bindw (operator_components blink_answer, w) (\<lambda>blink w.
     bindw (operator_components saccade_answer, w) (\<lambda>saccade w.
     let bad_sources = bad_sources_of_calibration blink saccade in
     bindw (save_ajdc_parameters a blink saccade
              (ajdc_path path @ ''/_PARAMETERS_/'' @ frequencie_file @ ''/'' @ condition)
              (subject @ ''parameters_AJDC.npz'') w) (\<lambda>_ w.
     bindw (inverse_transform a (data source) bad_sources, w) (\<lambda>corrected_signal w.
     bindw (RawArray corrected_signal signal, w) (\<lambda>corrected0 w.
     let signal_corrected =
           set_annotations (set_meas_date corrected0 (meas_date signal)) (annotations signal) in
     bindw (export_signal signal_corrected
              (ajdc_path path @ ''/_CALIBRATION_DATA_/'' @ frequencie_file @ ''/'' @ condition @ ''/'' @ subject)
              (subject @ ''calibration_corrected.vhdr'') w) (\<lambda>_ w.
     bindw (save_mne_reports
              (mne_reports_path path @ ''_AJDC_/'' @ frequencie_file @ ''/'' @ condition)
              (subject @ ''_AJDC_Decomposition_'' @ frequencie_file @ ''.html'') w) (\<lambda>_ w.
     (Inr signal, w))))))))))))))))))"

text \<open>
  Lines 66 to 142, the loop over the files of the directory. \<open>signal\<close> is the local
  variable of that name: unbound (\<open>None\<close>) until a file whose name contains \<open>2-1.vhdr\<close>
  has been read, prepared and cropped. The test \<open>'signal' in locals()\<close> stands inside the
  loop, so the calibration is carried out at that file and again at every file after it.
\<close>

fun calibration_files ::
  "'a::{zero,one,plus,times} env \<Rightarrow> string \<Rightarrow> string \<Rightarrow> string \<Rightarrow> paths \<Rightarrow> string list \<Rightarrow>
     'a raw option \<Rightarrow> 'a world \<Rightarrow> (error + unit) \<times> 'a world" where
  "calibration_files env subject condition frequencie_file path [] signal w0 = (Inr (), w0)"
| "calibration_files env subject condition frequencie_file path (file # files) signal w0 =
     bindw (if contains ''2-1.vhdr'' file
            then bindw (load_data file w0) (\<lambda>s w.
                 bindw (preparing_data_BetaPark env (extract_number subject) False s, w) (\<lambda>s w.
                 bindw (crop_calibration_signal_BetaPark env s condition w) (\<lambda>s w.
                 (Inr (Some s), w))))
            else (Inr signal, w0))
       (\<lambda>signal w.
          case signal of
            None \<Rightarrow> calibration_files env subject condition frequencie_file path files None w
          | Some s \<Rightarrow>
              bindw (calibrate_signal env subject condition frequencie_file path s w) (\<lambda>s w.
              calibration_files env subject condition frequencie_file path files (Some s) w))"

definition process_calibration ::
  "'a::{zero,one,plus,times} env \<Rightarrow> string \<Rightarrow> string \<Rightarrow> string \<Rightarrow> paths \<Rightarrow> string \<Rightarrow> 'a world \<Rightarrow>
     (error + unit) \<times> 'a world" where
  "process_calibration env subject condition frequencie_file path dataset w0 =
     bindw (os_chdir (raw_data path @ subject) w0) (\<lambda>_ w.
     bindw (os_listdir (raw_data path @ subject) w) (\<lambda>files w.
     calibration_files env subject condition frequencie_file path files None w))"

definition calibrate_ajdc ::
  "'a::{zero,one,plus,times} env \<Rightarrow> string list \<Rightarrow> string list \<Rightarrow> string \<Rightarrow> paths \<Rightarrow> string \<Rightarrow>
     'a world \<Rightarrow> (error + unit) \<times> 'a world" where
  "calibrate_ajdc env subjects conditions frequencie_file path dataset =
     for_each (\<lambda>condition.
       for_each (\<lambda>subject w.
         if not_available subject then (Inr (), print ''Data not available'' w)
         else process_calibration env subject condition frequencie_file path dataset w) subjects)
       conditions"

section \<open>Shapes\<close>

text \<open>
  An array of \<open>m\<close> rows and \<open>n\<close> columns. The shapes of a fitted object: the forward
  filters have one row per source and one column per channel, the backward filters one row
  per channel and one column per source, and there is at least one channel and one source.
  A recording has one row of samples per channel name, all of the same length. A recording
  fits an object when it has the object's number of channels. An index is in range for
  \<open>n\<close> sources when it lies in \<open>-n .. n-1\<close>.
\<close>

definition has_shape :: "'a matrix \<Rightarrow> nat \<Rightarrow> nat \<Rightarrow> bool" where
  "has_shape M m n = (length M = m \<and> list_all (\<lambda>r. length r = n) M)"

definition well_shaped :: "'a ajdc \<Rightarrow> bool" where
  "well_shaped a =
     (0 < n_channels a \<and> 0 < n_sources a \<and>
      has_shape (forward_filters a) (n_sources a) (n_channels a) \<and>
      has_shape (backward_filters a) (n_channels a) (n_sources a))"

definition well_formed :: "'a raw \<Rightarrow> bool" where
  "well_formed signal = has_shape (data signal) (length (ch_names signal)) (n_times signal)"

definition fits :: "'a ajdc \<Rightarrow> 'a raw \<Rightarrow> bool" where
  "fits a signal = (length (ch_names signal) = n_channels a)"

definition in_range :: "nat \<Rightarrow> int \<Rightarrow> bool" where
  "in_range n s = (- int n \<le> s \<and> s < int n)"

text \<open>No epoch of the recording is dropped for a bad annotation.\<close>

definition no_bad_epoch :: "'a raw \<Rightarrow> bool" where
  "no_bad_epoch signal =
     list_all (\<lambda>k. \<not> bad_segment signal (k * epoch_samples signal)
                        (k * epoch_samples signal + epoch_samples signal))
       [0..<n_times signal div epoch_samples signal]"

text \<open>An annotation lies within the first \<open>t\<close> seconds.\<close>

definition lies_within :: "rat \<Rightarrow> annotation \<Rightarrow> bool" where
  "lies_within t a = (0 \<le> onset a \<and> 0 \<le> duration a \<and> onset a + duration a \<le> t)"

text \<open>
  The matrix \<open>denois\<close> after the assignments \<open>denois[k, k] = 0\<close> for the \<open>k\<close> of a set,
  and the row an index denotes.
\<close>

definition zero_diag :: "nat set \<Rightarrow> 'a::zero matrix \<Rightarrow> 'a matrix" where
  "zero_diag K D = map (\<lambda>i. if i \<in> K then (D ! i)[i := 0] else D ! i) [0..<length D]"

definition norm_index :: "nat \<Rightarrow> int \<Rightarrow> nat" where
  "norm_index n s = nat (if s < 0 then s + int n else s)"

section \<open>A small installation\<close>

text \<open>
  Concrete values on which the definitions are run: integer samples; preparation and
  filters that leave the recording as it is; a crop defined for the whole recording only
  (from 0 to the time of the last sample, where it changes nothing); \<open>float\<close> on integer
  numerals; a fit that returns a fixed pair of filters inverse to each other; a recording
  of two channels and five samples at 4 Hz (two samples per epoch, the last sample at
  1 s). The operator types the bounds \<open>0\<close> and \<open>1\<close> of the clean signal, then the blink
  component \<open>0\<close> and the saccade component \<open>1\<close>.
\<close>

definition demo_paths :: paths where
  "demo_paths = \<lparr>raw_data = ''/data/raw/'', ajdc_path = ''/data/ajdc'', mne_reports_path = ''/data/reports/''\<rparr>"

definition demo_ajdc :: "int ajdc_config \<Rightarrow> int ajdc" where
  "demo_ajdc c =
     \<lparr>config = c, n_channels = 2, n_sources = 2,
      forward_filters = [[1, 1], [0, 1]], backward_filters = [[1, - 1], [0, 1]],
      freqs = [1, 2]\<rparr>"

definition demo_env :: "int env" where
  "demo_env =
     \<lparr>preparing_data_BetaPark = (\<lambda>_ _ s. Inr s),
      preprocessing = (\<lambda>_ _ _ s. Inr s),
      crop = (\<lambda>tmin tmax s.
                if tmin = 0 \<and> tmax = of_nat (n_times s - 1) / of_nat (sfreq s) then Inr s
                else Inl ValueError),
      py_float = (\<lambda>s. case py_int s of Inl e \<Rightarrow> Inl e | Inr i \<Rightarrow> Inr (of_int i)),
      fit = (\<lambda>c _. Inr (demo_ajdc c))\<rparr>"

definition demo_signal :: "int raw" where
  "demo_signal =
     \<lparr>ch_names = [''Fp1'', ''Fp2''], sfreq = 4, meas_date = Some 1717200000,
      data = [[1, 2, 3, 4, 5], [6, 7, 8, 9, 10]],
      annotations =
        [\<lparr>onset = 1 / 4, duration = 0, description = ''Stimulus/S  1''\<rparr>,
         \<lparr>onset = 9 / 8, duration = 0, description = ''Stimulus/S  2''\<rparr>]\<rparr>"

definition demo_config :: "int ajdc_config" where
  "demo_config =
     \<lparr>window = Number 4, overlap = 1 / 2, fmin = 1, fmax = 80, fs = Number 4,
      dim_red = Expl_var (99 / 100)\<rparr>"

definition demo_world :: "int world" where
  "demo_world =
     \<lparr>cwd = ''.'',
      stdin = [''0'', ''1'', ''0'', ''1''],
      listdir = (\<lambda>d. if d = ''/data/raw/sub-S002'' then Some [''sub-S002_2-1.vhdr'']
                     else if d = ''/data/raw/sub-S003'' then Some [''sub-S003_2-1.vhdr'']
                     else None),
      recordings = (\<lambda>d f. if (d, f) = (''/data/raw/sub-S002'', ''sub-S002_2-1.vhdr'') \<or>
                             (d, f) = (''/data/raw/sub-S003'', ''sub-S003_2-1.vhdr'')
                          then Some demo_signal else None),
      parameters = Map.empty,
      loaded = [], exported = [], reports = [], console = []\<rparr>"

text \<open>
  An object that retains one source of two channels: the backward filter is the
  pseudo-inverse of the forward filter (forward times backward is the identity on the
  source, backward times forward is a projection of the channels), as a fit that reduced
  the dimension returns.
\<close>

definition demo_reduced :: "int ajdc" where
  "demo_reduced =
     \<lparr>config = demo_config, n_channels = 2, n_sources = 1,
      forward_filters = [[1, 0]], backward_filters = [[1], [0]], freqs = [1]\<rparr>"

text \<open>
  The installation after a calibration of \<open>sub-S002\<close> saved the blink component 1 and the
  saccade component 0.
\<close>

definition demo_calibrated :: "int world" where
  "demo_calibrated =
     snd (save_ajdc_parameters (demo_ajdc demo_config) [1] [0]
            ''/data/ajdc/_PARAMETERS_/_BAND_1_80_/_CLEAN_'' ''sub-S002parameters_AJDC.npz''
            demo_world)"

section \<open>Basic facts\<close>

lemma bindw_raise [simp]: "bindw (Inl e, w) f = (Inl e, w)"
  by (simp add: bindw_def)

lemma bindw_value [simp]: "bindw (Inr x, w) f = f x w"
  by (simp add: bindw_def)

lemma bind_raise [simp]: "bind (Inl e) f = Inl e"
  by (simp add: bind_def)

lemma bind_value [simp]: "bind (Inr x) f = f x"
  by (simp add: bind_def)

lemma for_each_append:
  "for_each body (xs @ ys) w = bindw (for_each body xs w) (\<lambda>_. for_each body ys)"
proof (induction xs arbitrary: w)
  case Nil
  show ?case by simp
next
  case (Cons x xs)
  show ?case
    by (cases "body x w" rule: prod.exhaust; cases "fst (body x w)") (auto simp: Cons.IH)
qed

lemma for_each_one: "for_each body [x] w = body x w"
  by (cases "body x w" rule: prod.exhaust; cases "fst (body x w)") auto

subsection \<open>Suppression depends on the set of indices\<close>

lemma py_index_cases:
  "py_index n s = (if in_range n s then Inr (norm_index n s) else Inl IndexError)"
  by (auto simp: py_index_def in_range_def norm_index_def)

lemma norm_index_less: "in_range n s \<Longrightarrow> norm_index n s < n"
  by (auto simp: in_range_def norm_index_def)

lemma zero_diag_empty: "zero_diag {} D = D"
  by (simp add: zero_diag_def map_nth)

lemma zero_diag_update:
  assumes "k < length D"
  shows "zero_diag K (D[k := (D ! k)[k := 0]]) = zero_diag (insert k K) D"
  using assms by (auto simp: zero_diag_def nth_list_update intro!: nth_equalityI)

lemma suppress_set:
  "suppress D supp =
     (if list_all (in_range (length D)) supp
      then Inr (zero_diag (norm_index (length D) ` set supp) D)
      else Inl IndexError)"
proof (induction supp arbitrary: D)
  case Nil
  show ?case by (simp add: zero_diag_empty)
next
  case (Cons s supp)
  show ?case
  proof (cases "in_range (length D) s")
    case False
    then show ?thesis by (simp add: py_index_cases)
  next
    case True
    then have k: "norm_index (length D) s < length D" by (rule norm_index_less)
    show ?thesis
      using True k by (simp add: py_index_cases Cons.IH zero_diag_update)
  qed
qed

lemma suppress_same_set:
  assumes "set s1 = set s2"
  shows "suppress D s1 = suppress D s2"
  using assms by (simp add: suppress_set list_all_iff)

lemma inverse_transform_same_set:
  assumes "set s1 = set s2"
  shows "inverse_transform a X s1 = inverse_transform a X s2"
  by (simp add: inverse_transform_def suppress_same_set[OF assms])

subsection \<open>Shapes through the transforms\<close>

lemma n_cols_shape: "has_shape M m n \<Longrightarrow> 0 < m \<Longrightarrow> n_cols M = n"
  by (cases M) (auto simp: has_shape_def n_cols_def)

lemma matmul_shape:
  assumes "has_shape A m k" "has_shape B k n" "0 < k"
  shows "\<exists>C. matmul A B = Inr C \<and> has_shape C m n"
proof -
  have "list_all (\<lambda>r. length r = length B) A"
    using assms by (simp add: has_shape_def)
  moreover have "n_cols B = n"
    using assms by (simp add: n_cols_shape)
  ultimately show ?thesis
    using assms by (simp add: matmul_def has_shape_def list_all_iff)
qed

lemma eye_shape: "has_shape (eye n) n n"
  by (simp add: eye_def has_shape_def list_all_iff)

lemma zero_diag_shape: "has_shape D m n \<Longrightarrow> has_shape (zero_diag K D) m n"
  by (auto simp: has_shape_def zero_diag_def list_all_iff)

lemma suppress_shape:
  assumes "has_shape D n n" "list_all (in_range n) supp"
  shows "\<exists>D'. suppress D supp = Inr D' \<and> has_shape D' n n"
proof -
  have "length D = n" using assms by (simp add: has_shape_def)
  then show ?thesis
    using assms by (simp add: suppress_set zero_diag_shape)
qed

lemma transform_shape:
  assumes "well_shaped a" "has_shape X (n_channels a) L"
  shows "\<exists>S. transform a X = Inr S \<and> has_shape S (n_sources a) L"
proof -
  have "length X = n_channels a" using assms by (simp add: has_shape_def)
  moreover have "\<exists>S. matmul (forward_filters a) X = Inr S \<and> has_shape S (n_sources a) L"
    using assms by (intro matmul_shape) (auto simp: well_shaped_def)
  ultimately show ?thesis by (simp add: transform_def)
qed

lemma inverse_transform_shape:
  fixes a :: "'a::{zero,one,plus,times} ajdc"
  assumes "well_shaped a" "has_shape S (n_sources a) L" "list_all (in_range (n_sources a)) supp"
  shows "\<exists>Y. inverse_transform a S supp = Inr Y \<and> has_shape Y (n_channels a) L"
proof -
  have len: "length S = n_sources a" using assms by (simp add: has_shape_def)
  obtain D :: "'a matrix" where
    D: "suppress (eye (n_sources a)) supp = Inr D" "has_shape D (n_sources a) (n_sources a)"
    using suppress_shape[OF eye_shape assms(3)] by blast
  obtain BD where BD: "matmul (backward_filters a) D = Inr BD" "has_shape BD (n_channels a) (n_sources a)"
    using matmul_shape[of "backward_filters a" "n_channels a" "n_sources a" D "n_sources a"] assms(1) D(2)
    by (auto simp: well_shaped_def)
  obtain Y where Y: "matmul BD S = Inr Y" "has_shape Y (n_channels a) L"
    using matmul_shape[OF BD(2) assms(2)] assms(1) by (auto simp: well_shaped_def)
  show ?thesis
    using len D BD Y by (simp add: inverse_transform_def)
qed

lemma denoise_epoch_shape:
  assumes "well_shaped a" "fits a signal" "has_shape X (n_channels a) L"
    "list_all (in_range (n_sources a)) bad_sources"
  shows "\<exists>Y. denoise_epoch a bad_sources signal X = Inr (signal\<lparr>data := Y, annotations := []\<rparr>) \<and>
             has_shape Y (n_channels a) L"
proof -
  obtain S where S: "transform a X = Inr S" "has_shape S (n_sources a) L"
    using transform_shape[OF assms(1,3)] by blast
  obtain Y where Y: "inverse_transform a S bad_sources = Inr Y" "has_shape Y (n_channels a) L"
    using inverse_transform_shape[OF assms(1) S(2) assms(4)] by blast
  have "length Y = length (ch_names signal)"
    using Y(2) assms(2) by (simp add: has_shape_def fits_def)
  then show ?thesis
    using S Y by (auto simp: denoise_epoch_def RawArray_def)
qed

lemma denoise_epoch_info:
  assumes "denoise_epoch a bad_sources signal X = Inr out"
  shows "meas_date out = meas_date signal \<and> sfreq out = sfreq signal \<and> ch_names out = ch_names signal"
  using assms
  by (auto simp: denoise_epoch_def RawArray_def bind_def split: sum.splits if_splits)

subsection \<open>Epochs and their concatenation\<close>

lemma epoch_at_shape:
  assumes "well_formed signal" "k < n_times signal div epoch_samples signal"
  shows "has_shape (epoch_at signal k) (length (ch_names signal)) (epoch_samples signal)"
proof -
  let ?L = "epoch_samples signal" and ?n = "n_times signal"
  have "Suc k * ?L \<le> (?n div ?L) * ?L"
    using assms(2) by (intro mult_le_mono1) simp
  also have "\<dots> \<le> ?n" by simp
  finally have "k * ?L + ?L \<le> ?n" by simp
  then show ?thesis
    using assms(1) by (auto simp: well_formed_def has_shape_def epoch_at_def Let_def list_all_iff)
qed

lemma epochs_tile_row:
  "concat (map (\<lambda>k. take L (drop (k * L) row)) [0..<m]) = take (m * L) row"
proof (induction m)
  case 0
  show ?case by simp
next
  case (Suc m)
  have "Suc m * L = m * L + L" by simp
  then have "take (Suc m * L) row = take (m * L) row @ take L (drop (m * L) row)"
    by (simp only: take_add)
  then show ?case using Suc by simp
qed

lemma make_fixed_length_epochs_all:
  assumes "0 < epoch_samples signal" "epoch_samples signal \<le> n_times signal" "no_bad_epoch signal"
  shows "make_fixed_length_epochs signal =
           Inr (map (epoch_at signal) [0..<n_times signal div epoch_samples signal])"
proof -
  have "filter (\<lambda>k. \<not> bad_segment signal (k * epoch_samples signal)
                        (k * epoch_samples signal + epoch_samples signal))
          [0..<n_times signal div epoch_samples signal] =
        [0..<n_times signal div epoch_samples signal]"
    using assms(3) unfolding no_bad_epoch_def list_all_iff by (intro filter_True) simp
  then show ?thesis
    using assms(1,2) by (simp add: make_fixed_length_epochs_def Let_def)
qed

lemma map_raising_all:
  assumes "\<And>x. x \<in> set xs \<Longrightarrow> \<exists>y. f x = Inr y \<and> P y"
  shows "\<exists>ys. map_raising f xs = Inr ys \<and> length ys = length xs \<and> list_all P ys"
  using assms
proof (induction xs)
  case Nil
  show ?case by simp
next
  case (Cons x xs)
  obtain y where y: "f x = Inr y" "P y" using Cons.prems by auto
  obtain ys where ys: "map_raising f xs = Inr ys" "length ys = length xs" "list_all P ys"
    using Cons.IH Cons.prems by auto
  show ?case using y ys by simp
qed

lemma map_raising_all_D:
  assumes "map_raising f xs = Inr ys" "y \<in> set ys"
  shows "\<exists>x\<in>set xs. f x = Inr y"
  using assms
proof (induction xs arbitrary: ys)
  case Nil
  then show ?case by simp
next
  case (Cons x xs)
  then show ?case
    by (auto simp: bind_def split: sum.splits)
qed

lemma hstack_shape:
  assumes "has_shape A c p" "has_shape B c q"
  shows "has_shape (hstack A B) c (p + q)"
proof -
  have "length r + length s = p + q" if rs: "(r, s) \<in> set (zip A B)" for r s
  proof -
    have "r \<in> set A" "s \<in> set B"
      using rs by (auto dest: set_zip_leftD set_zip_rightD)
    then show ?thesis
      using assms by (simp add: has_shape_def list_all_iff)
  qed
  then show ?thesis
    using assms by (auto simp: has_shape_def hstack_def list_all_iff)
qed

lemma foldl_hstack_shape:
  assumes "has_shape A c p" "list_all (\<lambda>B. has_shape B c q) Bs"
  shows "has_shape (foldl hstack A Bs) c (p + length Bs * q)"
  using assms
proof (induction Bs arbitrary: A p)
  case Nil
  then show ?case by simp
next
  case (Cons B Bs)
  have "has_shape (hstack A B) c (p + q)"
    using Cons.prems by (intro hstack_shape) simp_all
  then have "has_shape (foldl hstack (hstack A B) Bs) c (p + q + length Bs * q)"
    using Cons.prems by (intro Cons.IH) simp_all
  then show ?case by (simp add: add.assoc)
qed

text \<open>
  A well-shaped object, a well-formed recording that fits it, indices in range, at least
  one full epoch and none dropped: the replay returns, with one row per channel and the
  samples of all the full epochs.
\<close>

lemma replay_total:
  fixes a :: "'a::{zero,one,plus,times} ajdc"
  assumes ws: "well_shaped a" and wf: "well_formed signal" and fit: "fits a signal"
    and supp: "list_all (in_range (n_sources a)) bad_sources"
    and L: "0 < epoch_samples signal" "epoch_samples signal \<le> n_times signal"
    and nb: "no_bad_epoch signal"
  shows "\<exists>Y. replay a bad_sources signal =
               Inr (set_annotations (signal\<lparr>data := Y, annotations := []\<rparr>) (annotations signal)) \<and>
             has_shape Y (n_channels a)
               (n_times signal div epoch_samples signal * epoch_samples signal)"
proof -
  let ?L = "epoch_samples signal" and ?m = "n_times signal div epoch_samples signal"
  let ?P = "\<lambda>out. \<exists>Y. out = signal\<lparr>data := Y, annotations := []\<rparr> \<and> has_shape Y (n_channels a) ?L"
  have m: "0 < ?m" using L by (simp add: div_greater_zero_iff)
  have ep: "make_fixed_length_epochs signal = Inr (map (epoch_at signal) [0..<?m])"
    using L nb by (rule make_fixed_length_epochs_all)
  have "\<exists>y. denoise_epoch a bad_sources signal X = Inr y \<and> ?P y"
    if "X \<in> set (map (epoch_at signal) [0..<?m])" for X
  proof -
    from that have "\<exists>k<?m. X = epoch_at signal k" by (auto simp: image_iff)
    then obtain k where "k < ?m" "X = epoch_at signal k" by blast
    then have "has_shape X (n_channels a) ?L"
      using epoch_at_shape[OF wf] fit by (simp add: fits_def)
    then show ?thesis
      using denoise_epoch_shape[OF ws fit _ supp] by blast
  qed
  then obtain raws where raws:
    "map_raising (denoise_epoch a bad_sources signal) (map (epoch_at signal) [0..<?m]) = Inr raws"
    "length raws = ?m" "list_all ?P raws"
    using map_raising_all[of "map (epoch_at signal) [0..<?m]" "denoise_epoch a bad_sources signal" ?P]
    by auto
  obtain r rs where rrs: "raws = r # rs"
    using raws(2) m by (cases raws) auto
  obtain Y0 where Y0: "r = signal\<lparr>data := Y0, annotations := []\<rparr>" "has_shape Y0 (n_channels a) ?L"
    using raws(3) rrs by auto
  have rs: "list_all (\<lambda>B. has_shape B (n_channels a) ?L) (map data rs)"
    using raws(3) rrs by (auto simp: list_all_iff)
  have "has_shape (foldl hstack Y0 (map data rs)) (n_channels a) (?L + length (map data rs) * ?L)"
    using Y0(2) rs by (rule foldl_hstack_shape)
  moreover have "?L + length (map data rs) * ?L = ?m * ?L"
    using raws(2) rrs by (metis length_Cons length_map mult_Suc)
  ultimately have shape: "has_shape (foldl hstack Y0 (map data rs)) (n_channels a) (?m * ?L)"
    by simp
  have "replay a bad_sources signal =
          Inr (set_annotations (signal\<lparr>data := foldl hstack Y0 (map data rs), annotations := []\<rparr>)
                 (annotations signal))"
    using ep raws(1) rrs Y0(1)
    by (simp add: replay_def concatenate_raws_def set_annotations_def raw_duration_def n_times_def)
  with shape show ?thesis by blast
qed

lemma half_rate:
  assumes "even (sfreq signal)"
  shows "(of_nat (sfreq signal) :: rat) = 2 * of_nat (epoch_samples signal)"
proof -
  have "sfreq signal = 2 * epoch_samples signal"
    using assms by (simp add: epoch_samples_def)
  then show ?thesis by (metis of_nat_mult of_nat_numeral)
qed

lemma floor_half_seconds:
  assumes "even (sfreq signal)" "0 < epoch_samples signal"
  shows "\<lfloor>raw_duration signal / (1 / 2)\<rfloor> = int (n_times signal div epoch_samples signal)"
proof -
  have "raw_duration signal / (1 / 2) = of_nat (n_times signal) / of_nat (epoch_samples signal)"
    using assms by (simp add: raw_duration_def half_rate)
  then show ?thesis by (simp add: floor_divide_of_nat_eq)
qed

subsection \<open>Cropping annotations\<close>

lemma crop_annotation_within:
  "lies_within t a \<Longrightarrow> crop_annotation 0 t a = a"
  by (auto simp: lies_within_def crop_annotation_def)

lemma crop_annotations_subseq:
  "subseq (filter (lies_within t) anns) (crop_annotations 0 t anns)"
proof -
  let ?keep = "\<lambda>a. \<not> (t < onset a \<or> onset a + duration a < 0)"
  have imp: "lies_within t a \<Longrightarrow> ?keep a" for a
    by (auto simp: lies_within_def)
  have "filter (lies_within t) anns = filter (lies_within t) (filter ?keep anns)"
    using imp by (auto intro: filter_cong)
  also have "\<dots> = map (crop_annotation 0 t) (filter (lies_within t) (filter ?keep anns))"
    by (rule map_idI[symmetric]) (simp add: crop_annotation_within)
  finally have eq: "filter (lies_within t) anns =
      map (crop_annotation 0 t) (filter (lies_within t) (filter ?keep anns))" .
  have "subseq (filter (lies_within t) (filter ?keep anns)) (filter ?keep anns)"
    by (rule subseq_filter_left)
  then have "subseq (map (crop_annotation 0 t) (filter (lies_within t) (filter ?keep anns)))
               (map (crop_annotation 0 t) (filter ?keep anns))"
    by (rule subseq_map)
  then show ?thesis
    unfolding crop_annotations_def using eq by simp
qed

lemma crop_annotations_all_within:
  assumes "list_all (lies_within t) anns"
  shows "crop_annotations 0 t anns = anns"
proof -
  have "filter (\<lambda>a. \<not> (t < onset a \<or> onset a + duration a < 0)) anns = anns"
    using assms by (intro filter_True) (auto simp: list_all_iff lies_within_def)
  moreover have "map (crop_annotation 0 t) anns = anns"
    using assms by (intro map_idI) (auto simp: list_all_iff crop_annotation_within)
  ultimately show ?thesis by (simp add: crop_annotations_def)
qed

subsection \<open>Restoring the object\<close>

lemma transform_restore: "transform (restore (archive a blink saccade)) X = transform a X"
  by (simp add: transform_def restore_def archive_def)

lemma inverse_transform_restore:
  "inverse_transform (restore (archive a blink saccade)) Y supp = inverse_transform a Y supp"
  by (simp add: inverse_transform_def restore_def archive_def)

lemma denoise_epoch_restore:
  "denoise_epoch (restore (archive a blink saccade)) = denoise_epoch a"
  by (intro ext) (simp add: denoise_epoch_def transform_restore inverse_transform_restore)

lemma replay_restore:
  "replay (restore (archive a blink saccade)) bad_sources signal = replay a bad_sources signal"
  by (simp add: replay_def denoise_epoch_restore)

lemma denoise_file_no_fit:
  "denoise_file (env\<lparr>fit := f\<rparr>) a bad_sources subject condition frequencie_file path =
   denoise_file env a bad_sources subject condition frequencie_file path"
  by (intro ext) (simp add: denoise_file_def)

lemma process_denoising_no_fit:
  "process_denoising (env\<lparr>fit := f\<rparr>) subject condition frequencie_file path w =
   process_denoising env subject condition frequencie_file path w"
  by (simp add: process_denoising_def denoise_file_no_fit)

lemma bad_sources_of_replay_cases:
  "bad_sources_of_replay r =
     (case blinks_components r of [] \<Rightarrow> Inl TypeError | [b] \<Rightarrow> Inr [b] | _ \<Rightarrow> Inl ValueError)"
  by (simp add: bad_sources_of_replay_def np_isnan_def truth_value_def int_of_array_def
           split: list.splits)

subsection \<open>Answers in decimal digits\<close>

lemma split_from_chars:
  "t \<in> set (split_from cur s) \<Longrightarrow> set t \<subseteq> set cur \<union> set s"
proof (induction s arbitrary: cur)
  case Nil
  then show ?case by (auto split: if_splits)
next
  case (Cons c cs)
  show ?case
  proof (cases "isspace_char c")
    case False
    with Cons.prems have "t \<in> set (split_from (cur @ [c]) cs)" by simp
    from Cons.IH[OF this] show ?thesis by auto
  next
    case True
    with Cons.prems have "t = cur \<or> t \<in> set (split_from [] cs)"
      by (auto split: if_splits)
    then show ?thesis
    proof
      assume "t = cur" then show ?thesis by auto
    next
      assume "t \<in> set (split_from [] cs)"
      from Cons.IH[OF this] show ?thesis by auto
    qed
  qed
qed

lemma decimal_not_blank: "isdecimal_char c \<Longrightarrow> \<not> int_blank c"
  by (auto simp: isdecimal_char_def int_blank_def Let_def)

lemma decimal_not_sign: "isdecimal_char c \<Longrightarrow> c \<noteq> CHR ''-'' \<and> c \<noteq> CHR ''+'' \<and> c \<noteq> CHR ''_''"
  by (auto simp: isdecimal_char_def Let_def)

lemma digits_ok_decimal:
  "t \<noteq> [] \<Longrightarrow> list_all isdecimal_char t \<Longrightarrow> digits_ok t"
proof (induction t rule: digits_ok.induct)
  case 1
  then show ?case by simp
next
  case (2 c)
  then show ?case by simp
next
  case (3 c d cs)
  then show ?case using decimal_not_sign[of d] by simp
qed

lemma strip_decimal:
  assumes "t \<noteq> []" "list_all isdecimal_char t"
  shows "strip t = t"
proof -
  have "\<not> int_blank (hd t)" using assms by (cases t) (auto simp: decimal_not_blank)
  then have a: "dropWhile int_blank t = t" using assms(1) by (cases t) auto
  have "\<not> int_blank (last t)"
    using assms by (auto simp: list_all_iff decimal_not_blank)
  then have "dropWhile int_blank (rev t) = rev t"
    using assms(1) by (cases "rev t") (auto simp: last_rev hd_rev dest: arg_cong[where f=hd])
  then show ?thesis using a by (simp add: strip_def)
qed

lemma py_int_decimal:
  assumes "t \<noteq> []" "list_all isdecimal_char t"
  shows "py_int t = Inr (decimal_value t)"
proof -
  have "hd t \<noteq> CHR ''-''" "hd t \<noteq> CHR ''+''"
    using assms decimal_not_sign[of "hd t"] by (cases t; simp)+
  then show ?thesis
    using assms by (simp add: py_int_def strip_decimal digits_ok_decimal Let_def)
qed

lemma components_decimal:
  assumes "\<And>t. t \<in> set toks \<Longrightarrow> isdigit t \<Longrightarrow> list_all isdecimal_char t"
  shows "components toks = Inr (map decimal_value (filter isdigit toks))"
  using assms
proof (induction toks)
  case Nil
  show ?case by simp
next
  case (Cons t toks)
  have ih: "components toks = Inr (map decimal_value (filter isdigit toks))"
    using Cons by simp
  show ?case
  proof (cases "isdigit t")
    case False
    then show ?thesis using ih by simp
  next
    case True
    then have "t \<noteq> []" "list_all isdecimal_char t"
      using Cons.prems[of t] by (simp_all add: isdigit_def)
    then have "py_int t = Inr (decimal_value t)" by (rule py_int_decimal)
    then show ?thesis using True ih by simp
  qed
qed

text \<open>
  An answer with none of the superscript digits is read as intended: the tokens made of
  decimal digits are converted, in order, and every other token is dropped.
\<close>

lemma decimal_answers:
  assumes "list_all (\<lambda>c. isdigit_char c \<longrightarrow> isdecimal_char c) answer"
  shows "operator_components answer = Inr (map decimal_value (filter isdigit (py_split answer)))"
  unfolding operator_components_def
proof (rule components_decimal)
  fix t assume t: "t \<in> set (py_split answer)" and d: "isdigit t"
  have "set t \<subseteq> set answer"
    using split_from_chars[of t "[]" answer] t by (simp add: py_split_def)
  then show "list_all isdecimal_char t"
    using assms d by (auto simp: list_all_iff isdigit_def)
qed

subsection \<open>The round trip in exact arithmetic\<close>

text \<open>
  For elements of a semiring the entries of a product are sums over the inner index,
  and the backward filters applied to the forward filters applied to a segment are the
  product of the two filters applied to the segment.
\<close>

lemma dot_sum:
  fixes r :: "'a::semiring_0 list"
  assumes "length r = length c"
  shows "dot r c = (\<Sum>k<length r. r ! k * c ! k)"
  using assms
proof (induction r c rule: list_induct2)
  case Nil
  show ?case by (simp add: dot_def)
next
  case (Cons x xs y ys)
  have "dot (x # xs) (y # ys) = x * y + dot xs ys" by (simp add: dot_def)
  also have "\<dots> = x * y + (\<Sum>k<length xs. xs ! k * ys ! k)" using Cons.IH by simp
  also have "\<dots> = (\<Sum>k<length (x # xs). (x # xs) ! k * (y # ys) ! k)"
    by (simp add: sum.lessThan_Suc_shift del: sum.lessThan_Suc)
  finally show ?case .
qed

lemma shaped_entries:
  assumes "has_shape M m n"
  shows "M = map (\<lambda>i. map (\<lambda>j. M ! i ! j) [0..<n]) [0..<m]"
proof (rule nth_equalityI)
  show "length M = length (map (\<lambda>i. map (\<lambda>j. M ! i ! j) [0..<n]) [0..<m])"
    using assms by (simp add: has_shape_def)
next
  fix i assume "i < length M"
  then have i: "i < m" "length (M ! i) = n"
    using assms by (auto simp: has_shape_def list_all_iff)
  then have "M ! i = map (\<lambda>j. M ! i ! j) [0..<n]"
    by (metis map_nth)
  then show "M ! i = map (\<lambda>i. map (\<lambda>j. M ! i ! j) [0..<n]) [0..<m] ! i"
    using i by simp
qed

lemma matmul_entries:
  fixes A :: "'a::semiring_0 matrix"
  assumes "has_shape A m k" "has_shape B k n" "0 < k"
  shows "matmul A B = Inr (map (\<lambda>i. map (\<lambda>j. \<Sum>l<k. A ! i ! l * B ! l ! j) [0..<n]) [0..<m])"
proof -
  have ok: "list_all (\<lambda>r. length r = length B) A"
    using assms by (simp add: has_shape_def)
  have nc: "n_cols B = n" using assms by (simp add: n_cols_shape)
  have lenB: "length B = k" using assms by (simp add: has_shape_def)
  have "map (\<lambda>r. map (\<lambda>j. dot r (map (\<lambda>b. b ! j) B)) [0..<n]) A =
        map (\<lambda>i. map (\<lambda>j. \<Sum>l<k. A ! i ! l * B ! l ! j) [0..<n]) [0..<m]"
  proof (rule nth_equalityI)
    show "length (map (\<lambda>r. map (\<lambda>j. dot r (map (\<lambda>b. b ! j) B)) [0..<n]) A) =
          length (map (\<lambda>i. map (\<lambda>j. \<Sum>l<k. A ! i ! l * B ! l ! j) [0..<n]) [0..<m])"
      using assms by (simp add: has_shape_def)
  next
    fix i assume "i < length (map (\<lambda>r. map (\<lambda>j. dot r (map (\<lambda>b. b ! j) B)) [0..<n]) A)"
    then have i: "i < length A" "i < m" using assms by (simp_all add: has_shape_def)
    then have len: "length (A ! i) = k"
      using assms by (auto simp: has_shape_def list_all_iff)
    have "dot (A ! i) (map (\<lambda>b. b ! j) B) = (\<Sum>l<k. A ! i ! l * B ! l ! j)" for j
    proof -
      have "dot (A ! i) (map (\<lambda>b. b ! j) B) = (\<Sum>l<length (A ! i). A ! i ! l * map (\<lambda>b. b ! j) B ! l)"
        using len lenB by (intro dot_sum) simp
      also have "\<dots> = (\<Sum>l<k. A ! i ! l * B ! l ! j)"
        using len lenB by (intro sum.cong) simp_all
      finally show ?thesis .
    qed
    then show "map (\<lambda>r. map (\<lambda>j. dot r (map (\<lambda>b. b ! j) B)) [0..<n]) A ! i =
               map (\<lambda>i. map (\<lambda>j. \<Sum>l<k. A ! i ! l * B ! l ! j) [0..<n]) [0..<m] ! i"
      using i by simp
  qed
  then show ?thesis using ok nc by (simp add: matmul_def)
qed

lemma eye_nth: "i < n \<Longrightarrow> j < n \<Longrightarrow> eye n ! i ! j = (if i = j then 1 else 0)"
  by (simp add: eye_def)

lemma matmul_eye_right:
  fixes B :: "'a::semiring_1 matrix"
  assumes "has_shape B m n" "0 < n"
  shows "matmul B (eye n) = Inr B"
proof -
  have "(\<Sum>l<n. B ! i ! l * eye n ! l ! j) = B ! i ! j" if "j < n" for i j
  proof -
    have "(\<Sum>l<n. B ! i ! l * eye n ! l ! j) = (\<Sum>l<n. if l = j then B ! i ! l else 0)"
      using that by (intro sum.cong) (simp_all add: eye_nth)
    also have "\<dots> = B ! i ! j" using that by simp
    finally show ?thesis .
  qed
  then have "map (\<lambda>i. map (\<lambda>j. \<Sum>l<n. B ! i ! l * eye n ! l ! j) [0..<n]) [0..<m] =
        map (\<lambda>i. map (\<lambda>j. B ! i ! j) [0..<n]) [0..<m]"
    by simp
  also have "\<dots> = B" using shaped_entries[OF assms(1)] by simp
  finally show ?thesis
    using matmul_entries[OF assms(1) eye_shape assms(2)] by simp
qed

lemma round_trip_exact:
  fixes a :: "'a::semiring_1 ajdc"
  assumes ws: "well_shaped a" and S: "has_shape S (n_channels a) L"
    and inv: "matmul (backward_filters a) (forward_filters a) = Inr (eye (n_channels a))"
  shows "bind (transform a S) (\<lambda>X. inverse_transform a X []) = Inr S"
proof -
  let ?F = "forward_filters a" and ?B = "backward_filters a"
  let ?nc = "n_channels a" and ?ns = "n_sources a"
  have F: "has_shape ?F ?ns ?nc" and B: "has_shape ?B ?nc ?ns" and pos: "0 < ?nc" "0 < ?ns"
    using ws by (simp_all add: well_shaped_def)
  let ?T = "map (\<lambda>i. map (\<lambda>j. \<Sum>l<?nc. ?F ! i ! l * S ! l ! j) [0..<L]) [0..<?ns]"
  have T: "transform a S = Inr ?T"
    using S matmul_entries[OF F S pos(1)] by (simp add: transform_def has_shape_def)
  have Tshape: "has_shape ?T ?ns L"
    by (simp add: has_shape_def list_all_iff)
  have BF: "(\<Sum>l<?ns. ?B ! i ! l * ?F ! l ! k) = (if i = k then 1 else 0)"
    if "i < ?nc" "k < ?nc" for i k
  proof -
    have "map (\<lambda>i. map (\<lambda>j. \<Sum>l<?ns. ?B ! i ! l * ?F ! l ! j) [0..<?nc]) [0..<?nc] = eye ?nc"
      using inv matmul_entries[OF B F pos(2)] by simp
    then have "map (\<lambda>i. map (\<lambda>j. \<Sum>l<?ns. ?B ! i ! l * ?F ! l ! j) [0..<?nc]) [0..<?nc] ! i ! k =
               eye ?nc ! i ! k" by simp
    then show ?thesis using that by (simp add: eye_nth)
  qed
  have entry: "(\<Sum>l<?ns. ?B ! i ! l * ?T ! l ! j) = S ! i ! j" if "i < ?nc" "j < L" for i j
  proof -
    have "(\<Sum>l<?ns. ?B ! i ! l * ?T ! l ! j) =
          (\<Sum>l<?ns. ?B ! i ! l * (\<Sum>k<?nc. ?F ! l ! k * S ! k ! j))"
      using that by (intro sum.cong) simp_all
    also have "\<dots> = (\<Sum>l<?ns. \<Sum>k<?nc. ?B ! i ! l * ?F ! l ! k * S ! k ! j)"
      by (simp add: sum_distrib_left mult.assoc)
    also have "\<dots> = (\<Sum>k<?nc. \<Sum>l<?ns. ?B ! i ! l * ?F ! l ! k * S ! k ! j)"
      by (rule sum.swap)
    also have "\<dots> = (\<Sum>k<?nc. (\<Sum>l<?ns. ?B ! i ! l * ?F ! l ! k) * S ! k ! j)"
      by (simp add: sum_distrib_right)
    also have "\<dots> = (\<Sum>k<?nc. if k = i then S ! k ! j else 0)"
      using that BF by (intro sum.cong) auto
    also have "\<dots> = S ! i ! j" using that by simp
    finally show ?thesis .
  qed
  have "matmul ?B ?T = Inr (map (\<lambda>i. map (\<lambda>j. \<Sum>l<?ns. ?B ! i ! l * ?T ! l ! j) [0..<L]) [0..<?nc])"
    using matmul_entries[OF B Tshape pos(2)] .
  also have "map (\<lambda>i. map (\<lambda>j. \<Sum>l<?ns. ?B ! i ! l * ?T ! l ! j) [0..<L]) [0..<?nc] =
        map (\<lambda>i. map (\<lambda>j. S ! i ! j) [0..<L]) [0..<?nc]"
    using entry by simp
  also have "\<dots> = S" using shaped_entries[OF S] by simp
  finally have BT: "matmul ?B ?T = Inr S" .
  have "inverse_transform a ?T [] = Inr S"
    using BT matmul_eye_right[OF B pos(2)] by (simp add: inverse_transform_def)
  then show ?thesis using T by simp
qed

lemma round_trip_segment:
  fixes a :: "'a::semiring_1 ajdc"
  assumes ws: "well_shaped a" and S: "has_shape S (n_channels a) L"
    and inv: "matmul (backward_filters a) (forward_filters a) = Inr (eye (n_channels a))"
  shows "\<exists>X. transform a S = Inr X \<and> inverse_transform a X [] = Inr S"
proof -
  obtain X where X: "transform a S = Inr X"
    using transform_shape[OF ws S] by blast
  with round_trip_exact[OF ws S inv] have "inverse_transform a X [] = Inr S" by simp
  with X show ?thesis by blast
qed

section \<open>The claims\<close>

text \<open>
  Claim C1. The components suppressed at every epoch of a later replay are the blink and
  the saccade components the operator named at calibration.

  The code does otherwise. Calibration saves both lists and itself suppresses their
  concatenation, but the replay reads \<open>blinks_components\<close> alone (under the comment
  ``Extract bad components (blinks and saccades)''). Below, the operator answers \<open>0\<close> for the
  blinks and \<open>1\<close> for the saccades of subject \<open>sub-S002\<close>: calibration stores \<open>[0]\<close> and
  \<open>[1]\<close> and exports a calibration recording with both sources removed; the replay
  suppresses \<open>[0]\<close> only, and its output is that of the suppression list \<open>[0]\<close>, not of
  \<open>[0, 1]\<close>.
\<close>

theorem replay_suppresses_blinks_only:
  "(let (r1, w1) = process_calibration demo_env ''sub-S002'' ''_CLEAN_'' ''_BAND_1_80_''
                     demo_paths ''BetaPark'' demo_world;
        (r2, w2) = process_denoising demo_env ''sub-S002'' ''_CLEAN_'' ''_BAND_1_80_''
                     demo_paths w1;
        stored = parameters w1 (path_components
                   (parameters_path_of demo_paths ''_BAND_1_80_'' ''_CLEAN_'' ''sub-S002''))
    in r1 = Inr () \<and> r2 = Inr () \<and>
       map_option blinks_components stored = Some [0] \<and>
       map_option saccades_components stored = Some [1] \<and>
       map_option bad_sources_of_replay stored = Some (Inr [0]) \<and>
       map (\<lambda>(p, s). (last p, data s)) (exported w2) =
         [(''sub-S002_calibration_data.vhdr'', [[1, 2, 3, 4, 5], [6, 7, 8, 9, 10]]),
          (''sub-S002_components_data.vhdr'', [[7, 9, 11, 13, 15], [6, 7, 8, 9, 10]]),
          (''sub-S002calibration_corrected.vhdr'', [[0, 0, 0, 0, 0], [0, 0, 0, 0, 0]]),
          (''sub-S002_2-1_denoised.vhdr'', [[- 6, - 7, - 8, - 9], [6, 7, 8, 9]])]) \<and>
   bad_sources_of_calibration [0] [1] = [0, 1] \<and>
   map_sum id data (replay (demo_ajdc demo_config) [0] demo_signal) =
     Inr [[- 6, - 7, - 8, - 9], [6, 7, 8, 9]] \<and>
   map_sum id data (replay (demo_ajdc demo_config) [0, 1] demo_signal) =
     Inr [[0, 0, 0, 0], [0, 0, 0, 0]]"
  by code_simp

text \<open>
  Claim C2 (amended). A recording sampled at an even rate, holding at least one full epoch
  of 500 ms and none that a bad annotation rejects, is cut into the consecutive epochs
  \<open>0, 1, ...\<close> of \<open>L\<close> samples from sample 0: together they are the first
  \<open>(n div L) * L\<close> samples of every channel, the shorter rest being dropped. With a
  well-shaped object that the recording fits and suppression indices in range, the replay
  returns a recording of that many samples, whose duration is
  \<open>floor (d / 0.5) * 0.5\<close> seconds.
\<close>

theorem replay_duration:
  fixes a :: "'a::{zero,one,plus,times} ajdc"
  assumes "well_shaped a" and "well_formed signal" and "fits a signal"
    and "list_all (in_range (n_sources a)) bad_sources"
    and "even (sfreq signal)" and "0 < sfreq signal"
    and "epoch_samples signal \<le> n_times signal"
    and "no_bad_epoch signal"
  shows "make_fixed_length_epochs signal =
           Inr (map (epoch_at signal) [0..<n_times signal div epoch_samples signal]) \<and>
         (\<forall>i<length (data signal).
            concat (map (\<lambda>k. epoch_at signal k ! i) [0..<n_times signal div epoch_samples signal]) =
            take (n_times signal div epoch_samples signal * epoch_samples signal) (data signal ! i)) \<and>
         (\<exists>signal_corrected.
            replay a bad_sources signal = Inr signal_corrected \<and>
            sfreq signal_corrected = sfreq signal \<and>
            n_times signal_corrected =
              n_times signal div epoch_samples signal * epoch_samples signal \<and>
            raw_duration signal_corrected = of_int \<lfloor>raw_duration signal / (1 / 2)\<rfloor> * (1 / 2))"
proof -
  let ?L = "epoch_samples signal" and ?m = "n_times signal div epoch_samples signal"
  have L: "0 < ?L"
    using assms(5,6) by (auto simp: epoch_samples_def elim!: evenE)
  have ep: "make_fixed_length_epochs signal = Inr (map (epoch_at signal) [0..<?m])"
    using L assms(7,8) by (rule make_fixed_length_epochs_all)
  have tile: "concat (map (\<lambda>k. epoch_at signal k ! i) [0..<?m]) = take (?m * ?L) (data signal ! i)"
    if "i < length (data signal)" for i
  proof -
    have "epoch_at signal k ! i = take ?L (drop (k * ?L) (data signal ! i))" for k
      using that by (simp add: epoch_at_def Let_def)
    then show ?thesis by (simp add: epochs_tile_row)
  qed
  obtain Y where Y:
    "replay a bad_sources signal =
       Inr (set_annotations (signal\<lparr>data := Y, annotations := []\<rparr>) (annotations signal))"
    "has_shape Y (n_channels a) (?m * ?L)"
    using replay_total[OF assms(1-4) L assms(7,8)] by blast
  let ?out = "set_annotations (signal\<lparr>data := Y, annotations := []\<rparr>) (annotations signal)"
  have nt: "n_times ?out = ?m * ?L"
    using Y(2) assms(1) by (simp add: set_annotations_def n_times_def n_cols_shape well_shaped_def)
  have sf: "sfreq ?out = sfreq signal"
    by (simp add: set_annotations_def)
  have "raw_duration ?out = of_nat (?m * ?L) / (2 * of_nat ?L)"
    using nt sf by (simp add: raw_duration_def half_rate[OF assms(5)])
  also have "\<dots> = of_nat ?m * (1 / 2)"
    using L by simp
  also have "\<dots> = of_int \<lfloor>raw_duration signal / (1 / 2)\<rfloor> * (1 / 2)"
    using floor_half_seconds[OF assms(5) L] by simp
  finally have "raw_duration ?out = of_int \<lfloor>raw_duration signal / (1 / 2)\<rfloor> * (1 / 2)" .
  with ep tile Y(1) nt sf show ?thesis by blast
qed

text \<open>
  The installation's recording satisfies the hypotheses: 5 samples at 4 Hz, epochs of 2
  samples.
\<close>

theorem replay_duration_witness:
  "well_shaped (demo_ajdc demo_config) \<and> well_formed demo_signal \<and>
   fits (demo_ajdc demo_config) demo_signal \<and>
   list_all (in_range (n_sources (demo_ajdc demo_config))) [0] \<and>
   even (sfreq demo_signal) \<and> 0 < sfreq demo_signal \<and>
   epoch_samples demo_signal \<le> n_times demo_signal \<and> no_bad_epoch demo_signal \<and>
   n_times demo_signal = 5 \<and> epoch_samples demo_signal = 2 \<and>
   make_fixed_length_epochs demo_signal =
     Inr (map (epoch_at demo_signal) [0..<n_times demo_signal div epoch_samples demo_signal]) \<and>
   (\<exists>signal_corrected.
      replay (demo_ajdc demo_config) [0] demo_signal = Inr signal_corrected \<and>
      sfreq signal_corrected = sfreq demo_signal \<and>
      n_times signal_corrected =
        n_times demo_signal div epoch_samples demo_signal * epoch_samples demo_signal \<and>
      raw_duration signal_corrected = of_int \<lfloor>raw_duration demo_signal / (1 / 2)\<rfloor> * (1 / 2))"
proof -
  have h1: "well_shaped (demo_ajdc demo_config)" by code_simp
  have h2: "well_formed demo_signal" by code_simp
  have h3: "fits (demo_ajdc demo_config) demo_signal" by code_simp
  have h4: "list_all (in_range (n_sources (demo_ajdc demo_config))) [0]" by code_simp
  have h5: "even (sfreq demo_signal)" by code_simp
  have h6: "0 < sfreq demo_signal" by code_simp
  have h7: "epoch_samples demo_signal \<le> n_times demo_signal" by code_simp
  have h8: "no_bad_epoch demo_signal" by code_simp
  have n: "n_times demo_signal = 5" "epoch_samples demo_signal = 2" by code_simp+
  show ?thesis
    using replay_duration[OF h1 h2 h3 h4 h5 h6 h7 h8] h1 h2 h3 h4 h5 h6 h7 h8 n by blast
qed

text \<open>
  As stated for every recording, C2 fails. A recording of 0.25 s has no full epoch and the
  replay raises \<open>ValueError\<close>, where the claim has an output of 0 s. A recording of 1.25 s
  with an annotation \<open>BAD_blink\<close> from 0.5 s to 0.625 s loses its second epoch on loading
  and the output lasts 0.5 s, where the claim has 1 s.
\<close>

theorem replay_duration_counterexample:
  "raw_duration (demo_signal\<lparr>data := [[1], [6]]\<rparr>) = 1 / 4 \<and>
   replay (demo_ajdc demo_config) [] (demo_signal\<lparr>data := [[1], [6]]\<rparr>) = Inl ValueError \<and>
   raw_duration demo_signal = 5 / 4 \<and>
   map_sum id raw_duration
     (replay (demo_ajdc demo_config) []
        (demo_signal\<lparr>annotations :=
           [\<lparr>onset = 1 / 2, duration = 1 / 8, description = ''BAD_blink''\<rparr>]\<rparr>)) = Inr (1 / 2) \<and>
   of_int \<lfloor>(5 / 4 :: rat) / (1 / 2)\<rfloor> * (1 / 2) = (1 :: rat)"
  by code_simp

text \<open>
  Claim C8. The blink and saccade lists are the all-digit tokens of the operator's two
  answers, converted to integers; every other token is dropped.

  The code filters with \<open>str.isdigit\<close> and converts with \<open>int\<close>. The superscript two
  (U+00B2, a key of its own on French keyboards) passes \<open>isdigit\<close> and is not a decimal
  digit: the token is neither dropped nor converted, \<open>int\<close> raises \<open>ValueError\<close> and the
  calibration stops. An answer without such characters is read as the claim says
  (\<open>decimal_answers\<close>).
\<close>

theorem superscript_answer_raises:
  "isdigit [CHR 0xB2] \<and> py_split [CHR 0xB2] = [[CHR 0xB2]] \<and>
   py_int [CHR 0xB2] = Inl ValueError \<and>
   operator_components [CHR 0xB2] = Inl ValueError \<and>
   operator_components (''3 '' @ [CHR 0xB2]) = Inl ValueError \<and>
   operator_components ''0 3 x 12'' = Inr [0, 3, 12] \<and>
   operator_components '''' = Inr []"
  by code_simp

text \<open>
  Claim C3. Saving the parameters and loading them back gives the archive that was
  written; the object restored from it has the forward and backward filters, the channel
  and source counts of the fitted object, and transforms, reconstructs and replays every
  input exactly as the fitted object does, whatever the arithmetic of the elements. The
  restored object is constructed with \<open>max_cond = 100\<close>, not with the setting of the
  fit, and the replay never calls the fit: replacing it changes nothing.
\<close>

theorem parameters_round_trip:
  "(let w' = snd (save_ajdc_parameters a blink saccade path filename w);
        restored = restore (archive a blink saccade)
    in np_load (os_path_join path filename) w' = (Inr (archive a blink saccade), w') \<and>
       forward_filters restored = forward_filters a \<and>
       backward_filters restored = backward_filters a \<and>
       n_channels restored = n_channels a \<and>
       n_sources restored = n_sources a \<and>
       dim_red (config restored) = Max_cond 100 \<and>
       transform restored X = transform a X \<and>
       inverse_transform restored Y supp = inverse_transform a Y supp \<and>
       replay restored supp signal = replay a supp signal) \<and>
   process_denoising (env\<lparr>fit := other_fit\<rparr>) subject condition frequencie_file paths w0 =
     process_denoising env subject condition frequencie_file paths w0"
proof -
  have "forward_filters (restore (archive a blink saccade)) = forward_filters a"
    "backward_filters (restore (archive a blink saccade)) = backward_filters a"
    "n_channels (restore (archive a blink saccade)) = n_channels a"
    "n_sources (restore (archive a blink saccade)) = n_sources a"
    "dim_red (config (restore (archive a blink saccade))) = Max_cond 100"
    by (simp_all add: restore_def archive_def)
  then show ?thesis
    by (simp add: Let_def save_ajdc_parameters_def np_load_def transform_restore
          inverse_transform_restore replay_restore process_denoising_no_fit)
qed
text \<open>
  The installation's object, fitted with \<open>expl_var = 0.99\<close>, saved and restored.
\<close>

theorem parameters_round_trip_witness:
  "(let w' = snd (save_ajdc_parameters (demo_ajdc demo_config) [0] [1]
                    ''/data/ajdc/_PARAMETERS_/_BAND_1_80_/_CLEAN_'' ''sub-S002parameters_AJDC.npz'' demo_world);
        restored = restore (archive (demo_ajdc demo_config) [0] [1])
    in np_load (os_path_join ''/data/ajdc/_PARAMETERS_/_BAND_1_80_/_CLEAN_'' ''sub-S002parameters_AJDC.npz'') w' =
         (Inr (archive (demo_ajdc demo_config) [0] [1]), w') \<and>
       forward_filters restored = forward_filters (demo_ajdc demo_config) \<and>
       backward_filters restored = backward_filters (demo_ajdc demo_config) \<and>
       n_channels restored = n_channels (demo_ajdc demo_config) \<and>
       n_sources restored = n_sources (demo_ajdc demo_config) \<and>
       dim_red (config restored) = Max_cond 100 \<and>
       transform restored (data demo_signal) = transform (demo_ajdc demo_config) (data demo_signal) \<and>
       inverse_transform restored (data demo_signal) [0] =
         inverse_transform (demo_ajdc demo_config) (data demo_signal) [0] \<and>
       replay restored [0] demo_signal = replay (demo_ajdc demo_config) [0] demo_signal) \<and>
   dim_red (config (demo_ajdc demo_config)) = Expl_var (99 / 100) \<and>
   map_sum id data (replay (demo_ajdc demo_config) [0] demo_signal) =
     Inr [[- 6, - 7, - 8, - 9], [6, 7, 8, 9]]"
proof -
  have a: "dim_red (config (demo_ajdc demo_config)) = Expl_var (99 / 100)"
    by (simp add: demo_ajdc_def demo_config_def)
  have b: "map_sum id data (replay (demo_ajdc demo_config) [0] demo_signal) =
     Inr [[- 6, - 7, - 8, - 9], [6, 7, 8, 9]]"
    by code_simp
  from parameters_round_trip[of "demo_ajdc demo_config" "[0]" "[1]"
      "''/data/ajdc/_PARAMETERS_/_BAND_1_80_/_CLEAN_''" "''sub-S002parameters_AJDC.npz''" demo_world
      "data demo_signal" "data demo_signal" "[0]" demo_signal]
  show ?thesis using a b by blast
qed
text \<open>
  Claim C4 (amended). For a well-shaped object whose backward filters times its forward
  filters is the identity matrix of the channels, and every segment with the object's
  channels, \<open>transform\<close> followed by \<open>inverse_transform\<close> with an empty suppression list
  returns the segment: exactly, when the arithmetic of the elements is exact (a semiring);
  the rounding of floating-point filters is not stated. So the epoch a replay denoises with
  nothing suppressed is wrapped unchanged.
\<close>

theorem round_trip:
  fixes a :: "'a::semiring_1 ajdc"
  assumes "well_shaped a" and "has_shape S (n_channels a) L"
    and "matmul (backward_filters a) (forward_filters a) = Inr (eye (n_channels a))"
  shows "(\<exists>X. transform a S = Inr X \<and> inverse_transform a X [] = Inr S) \<and>
         (fits a signal \<longrightarrow>
            denoise_epoch a [] signal S = Inr (signal\<lparr>data := S, annotations := []\<rparr>))"
proof -
  obtain X where X: "transform a S = Inr X" "inverse_transform a X [] = Inr S"
    using round_trip_segment[OF assms] by blast
  have "denoise_epoch a [] signal S = Inr (signal\<lparr>data := S, annotations := []\<rparr>)"
    if "fits a signal"
  proof -
    have "length S = length (ch_names signal)"
      using that assms(2) by (simp add: fits_def has_shape_def)
    then show ?thesis using X by (simp add: denoise_epoch_def RawArray_def)
  qed
  with X show ?thesis by blast
qed

text \<open>
  The installation's filters are inverse to each other.
\<close>

theorem round_trip_witness:
  "well_shaped (demo_ajdc demo_config) \<and>
   has_shape (data demo_signal) (n_channels (demo_ajdc demo_config)) 5 \<and>
   matmul (backward_filters (demo_ajdc demo_config)) (forward_filters (demo_ajdc demo_config)) =
     Inr (eye (n_channels (demo_ajdc demo_config))) \<and>
   fits (demo_ajdc demo_config) demo_signal \<and>
   transform (demo_ajdc demo_config) (data demo_signal) =
     Inr [[7, 9, 11, 13, 15], [6, 7, 8, 9, 10]] \<and>
   (\<exists>X. transform (demo_ajdc demo_config) (data demo_signal) = Inr X \<and>
        inverse_transform (demo_ajdc demo_config) X [] = Inr (data demo_signal)) \<and>
   denoise_epoch (demo_ajdc demo_config) [] demo_signal (data demo_signal) =
     Inr (demo_signal\<lparr>data := data demo_signal, annotations := []\<rparr>)"
proof -
  have h1: "well_shaped (demo_ajdc demo_config)" by code_simp
  have h2: "has_shape (data demo_signal) (n_channels (demo_ajdc demo_config)) 5" by code_simp
  have h3: "matmul (backward_filters (demo_ajdc demo_config))
      (forward_filters (demo_ajdc demo_config)) = Inr (eye (n_channels (demo_ajdc demo_config)))"
    by code_simp
  have h4: "fits (demo_ajdc demo_config) demo_signal" by code_simp
  have t: "transform (demo_ajdc demo_config) (data demo_signal) =
     Inr [[7, 9, 11, 13, 15], [6, 7, 8, 9, 10]]" by code_simp
  show ?thesis
    using round_trip[OF h1 h2 h3, of demo_signal] h1 h2 h3 h4 t by blast
qed

text \<open>
  As stated for every fitted parameter set, C4 fails. The calibration fits with
  \<open>expl_var = 0.99\<close>, which may retain fewer sources than channels. With one source of two
  channels the round trip keeps the first channel and returns zeros for the second,
  samples 100 and -100 of the input: an error of the size of the signal, not a rounding
  error.
\<close>

theorem round_trip_counterexample:
  "well_shaped demo_reduced \<and> n_sources demo_reduced < n_channels demo_reduced \<and>
   has_shape [[5, 5], [100, - 100]] (n_channels demo_reduced) 2 \<and>
   matmul (forward_filters demo_reduced) (backward_filters demo_reduced) = Inr [[1]] \<and>
   matmul (backward_filters demo_reduced) (forward_filters demo_reduced) = Inr [[1, 0], [0, 0]] \<and>
   transform demo_reduced [[5, 5], [100, - 100]] = Inr [[5, 5]] \<and>
   inverse_transform demo_reduced [[5, 5]] [] = Inr [[5, 5], [0, 0]] \<and>
   bind (transform demo_reduced [[5, 5], [100, - 100]]) (\<lambda>X. inverse_transform demo_reduced X []) \<noteq>
     Inr [[5, 5], [100, - 100]]"
  by code_simp

text \<open>
  Claim C5 (amended). In both drivers a subject numbered 0, 1, 9 or 10 is skipped: the
  message is printed, nothing else changes (no parameter file, no export), and the run
  goes on with the subjects after it.
  An exception raised while a subject is processed is not caught: it ends the whole run
  with that exception, in the state the subject's processing left, and no later subject or
  condition is processed. (\<open>pre\<close> are the subjects before, processed without exception.)
\<close>

theorem drivers_skip_and_abort:
  "parameters (print ''Data not available'' w1) = parameters w1 \<and>
   exported (print ''Data not available'' w1) = exported w1 \<and>
   (not_available subject \<and>
    denoise_ajdc env pre [condition] frequencie_file path dataset w = (Inr (), w1) \<longrightarrow>
      denoise_ajdc env (pre @ subject # post) [condition] frequencie_file path dataset w =
      denoise_ajdc env post [condition] frequencie_file path dataset (print ''Data not available'' w1)) \<and>
   (\<not> not_available subject \<and>
    denoise_ajdc env pre [condition] frequencie_file path dataset w = (Inr (), w1) \<and>
    process_denoising env subject condition frequencie_file path w1 = (Inl e, w2) \<longrightarrow>
      denoise_ajdc env (pre @ subject # post) (condition # conditions) frequencie_file path dataset w =
      (Inl e, w2)) \<and>
   (not_available subject \<and>
    calibrate_ajdc env pre [condition] frequencie_file path dataset w = (Inr (), w1) \<longrightarrow>
      calibrate_ajdc env (pre @ subject # post) [condition] frequencie_file path dataset w =
      calibrate_ajdc env post [condition] frequencie_file path dataset (print ''Data not available'' w1)) \<and>
   (\<not> not_available subject \<and>
    calibrate_ajdc env pre [condition] frequencie_file path dataset w = (Inr (), w1) \<and>
    process_calibration env subject condition frequencie_file path dataset w1 = (Inl e, w2) \<longrightarrow>
      calibrate_ajdc env (pre @ subject # post) (condition # conditions) frequencie_file path dataset w =
      (Inl e, w2))"
proof -
  let ?d = "\<lambda>subject w.
         if not_available subject then (Inr (), print ''Data not available'' w)
         else process_denoising env subject condition frequencie_file path w"
  let ?c = "\<lambda>subject w.
         if not_available subject then (Inr (), print ''Data not available'' w)
         else process_calibration env subject condition frequencie_file path dataset w"
  have d1: "denoise_ajdc env xs [condition] frequencie_file path dataset w = for_each ?d xs w" for xs w
    unfolding denoise_ajdc_def by (rule for_each_one)
  have c1: "calibrate_ajdc env xs [condition] frequencie_file path dataset w = for_each ?c xs w" for xs w
    unfolding calibrate_ajdc_def by (rule for_each_one)
  have dn: "denoise_ajdc env xs (condition # conditions) frequencie_file path dataset w = (Inl e, w')"
    if "for_each ?d xs w = (Inl e, w')" for xs w w'
    using that by (simp add: denoise_ajdc_def)
  have cn: "calibrate_ajdc env xs (condition # conditions) frequencie_file path dataset w = (Inl e, w')"
    if "for_each ?c xs w = (Inl e, w')" for xs w w'
    using that by (simp add: calibrate_ajdc_def)
  show ?thesis
  proof (intro conjI impI; (elim conjE)?)
    show "parameters (print ''Data not available'' w1) = parameters w1"
      "exported (print ''Data not available'' w1) = exported w1"
      by (simp_all add: print_def)
  next
    assume "not_available subject"
      "denoise_ajdc env pre [condition] frequencie_file path dataset w = (Inr (), w1)"
    then show "denoise_ajdc env (pre @ subject # post) [condition] frequencie_file path dataset w =
      denoise_ajdc env post [condition] frequencie_file path dataset (print ''Data not available'' w1)"
      by (simp add: d1 for_each_append)
  next
    assume "\<not> not_available subject"
      "denoise_ajdc env pre [condition] frequencie_file path dataset w = (Inr (), w1)"
      "process_denoising env subject condition frequencie_file path w1 = (Inl e, w2)"
    then have "for_each ?d (pre @ subject # post) w = (Inl e, w2)"
      by (simp add: d1 for_each_append)
    then show "denoise_ajdc env (pre @ subject # post) (condition # conditions) frequencie_file path dataset w =
      (Inl e, w2)" by (rule dn)
  next
    assume "not_available subject"
      "calibrate_ajdc env pre [condition] frequencie_file path dataset w = (Inr (), w1)"
    then show "calibrate_ajdc env (pre @ subject # post) [condition] frequencie_file path dataset w =
      calibrate_ajdc env post [condition] frequencie_file path dataset (print ''Data not available'' w1)"
      by (simp add: c1 for_each_append)
  next
    assume "\<not> not_available subject"
      "calibrate_ajdc env pre [condition] frequencie_file path dataset w = (Inr (), w1)"
      "process_calibration env subject condition frequencie_file path dataset w1 = (Inl e, w2)"
    then have "for_each ?c (pre @ subject # post) w = (Inl e, w2)"
      by (simp add: c1 for_each_append)
    then show "calibrate_ajdc env (pre @ subject # post) (condition # conditions) frequencie_file path dataset w =
      (Inl e, w2)" by (rule cn)
  qed
qed
text \<open>
  On the installation: subject \<open>sub-S001\<close> is skipped; \<open>sub-S002\<close> has no parameter file
  and \<open>sub-S004\<close> no directory, and each ends its run.
\<close>

theorem drivers_skip_and_abort_witness:
  "not_available ''sub-S001'' \<and> \<not> not_available ''sub-S002'' \<and> \<not> not_available ''sub-S004'' \<and>
   denoise_ajdc demo_env [] [''_CLEAN_''] ''_BAND_1_80_'' demo_paths ''BetaPark'' demo_world =
     (Inr (), demo_world) \<and>
   denoise_ajdc demo_env ([] @ ''sub-S001'' # [''sub-S003'']) [''_CLEAN_''] ''_BAND_1_80_'' demo_paths
       ''BetaPark'' demo_world =
     denoise_ajdc demo_env [''sub-S003''] [''_CLEAN_''] ''_BAND_1_80_'' demo_paths ''BetaPark''
       (print ''Data not available'' demo_world) \<and>
   process_denoising demo_env ''sub-S002'' ''_CLEAN_'' ''_BAND_1_80_'' demo_paths demo_world =
     (Inl FileNotFoundError, demo_world) \<and>
   denoise_ajdc demo_env ([] @ ''sub-S002'' # [''sub-S003'']) [''_CLEAN_'', ''_HAND_OBSERVATION_'']
       ''_BAND_1_80_'' demo_paths ''BetaPark'' demo_world =
     (Inl FileNotFoundError, demo_world) \<and>
   calibrate_ajdc demo_env [] [''_CLEAN_''] ''_BAND_1_80_'' demo_paths ''BetaPark'' demo_world =
     (Inr (), demo_world) \<and>
   calibrate_ajdc demo_env ([] @ ''sub-S001'' # [''sub-S002'']) [''_CLEAN_''] ''_BAND_1_80_'' demo_paths
       ''BetaPark'' demo_world =
     calibrate_ajdc demo_env [''sub-S002''] [''_CLEAN_''] ''_BAND_1_80_'' demo_paths ''BetaPark''
       (print ''Data not available'' demo_world) \<and>
   process_calibration demo_env ''sub-S004'' ''_CLEAN_'' ''_BAND_1_80_'' demo_paths ''BetaPark'' demo_world =
     (Inl FileNotFoundError, demo_world) \<and>
   calibrate_ajdc demo_env ([] @ ''sub-S004'' # [''sub-S002'']) [''_CLEAN_'', ''_HAND_OBSERVATION_'']
       ''_BAND_1_80_'' demo_paths ''BetaPark'' demo_world =
     (Inl FileNotFoundError, demo_world)"
proof -
  have s1: "not_available ''sub-S001''" by code_simp
  have s2: "\<not> not_available ''sub-S002''" by code_simp
  have s4: "\<not> not_available ''sub-S004''" by code_simp
  have d0: "denoise_ajdc demo_env [] [''_CLEAN_''] ''_BAND_1_80_'' demo_paths ''BetaPark'' demo_world =
     (Inr (), demo_world)"
    by (simp add: denoise_ajdc_def)
  have c0: "calibrate_ajdc demo_env [] [''_CLEAN_''] ''_BAND_1_80_'' demo_paths ''BetaPark'' demo_world =
     (Inr (), demo_world)"
    by (simp add: calibrate_ajdc_def)
  have none: "parameters demo_world
     (path_components (parameters_path_of demo_paths ''_BAND_1_80_'' ''_CLEAN_'' ''sub-S002'')) = None"
    by (simp add: demo_world_def)
  have pd: "process_denoising demo_env ''sub-S002'' ''_CLEAN_'' ''_BAND_1_80_'' demo_paths demo_world =
     (Inl FileNotFoundError, demo_world)"
    using none by (simp add: process_denoising_def np_load_def)
  have "listdir demo_world (raw_data demo_paths @ ''sub-S004'') = None"
    by (simp add: demo_world_def demo_paths_def)
  then have pc: "process_calibration demo_env ''sub-S004'' ''_CLEAN_'' ''_BAND_1_80_'' demo_paths
      ''BetaPark'' demo_world = (Inl FileNotFoundError, demo_world)"
    by (simp add: process_calibration_def os_chdir_def)
  note t = drivers_skip_and_abort[where env = demo_env and pre = "[]" and condition = "''_CLEAN_''"
      and frequencie_file = "''_BAND_1_80_''" and path = demo_paths and dataset = "''BetaPark''"
      and w = demo_world and ?w1.0 = demo_world]
  have a: "denoise_ajdc demo_env ([] @ ''sub-S001'' # [''sub-S003'']) [''_CLEAN_''] ''_BAND_1_80_'' demo_paths
       ''BetaPark'' demo_world =
     denoise_ajdc demo_env [''sub-S003''] [''_CLEAN_''] ''_BAND_1_80_'' demo_paths ''BetaPark''
       (print ''Data not available'' demo_world)"
    using t[where subject = "''sub-S001''" and post = "[''sub-S003'']"] s1 d0 by blast
  have b: "denoise_ajdc demo_env ([] @ ''sub-S002'' # [''sub-S003'']) [''_CLEAN_'', ''_HAND_OBSERVATION_'']
       ''_BAND_1_80_'' demo_paths ''BetaPark'' demo_world = (Inl FileNotFoundError, demo_world)"
    using t[where subject = "''sub-S002''" and post = "[''sub-S003'']" and e = FileNotFoundError
        and ?w2.0 = demo_world and conditions = "[''_HAND_OBSERVATION_'']"]
      s2 d0 pd by blast
  have c: "calibrate_ajdc demo_env ([] @ ''sub-S001'' # [''sub-S002'']) [''_CLEAN_''] ''_BAND_1_80_'' demo_paths
       ''BetaPark'' demo_world =
     calibrate_ajdc demo_env [''sub-S002''] [''_CLEAN_''] ''_BAND_1_80_'' demo_paths ''BetaPark''
       (print ''Data not available'' demo_world)"
    using t[where subject = "''sub-S001''" and post = "[''sub-S002'']"] s1 c0 by blast
  have d: "calibrate_ajdc demo_env ([] @ ''sub-S004'' # [''sub-S002'']) [''_CLEAN_'', ''_HAND_OBSERVATION_'']
       ''_BAND_1_80_'' demo_paths ''BetaPark'' demo_world = (Inl FileNotFoundError, demo_world)"
    using t[where subject = "''sub-S004''" and post = "[''sub-S002'']" and e = FileNotFoundError
        and ?w2.0 = demo_world and conditions = "[''_HAND_OBSERVATION_'']"]
      s4 c0 pc by blast
  show ?thesis using s1 s2 s4 d0 c0 pd pc a b c d by blast
qed
text \<open>
  As stated, C5 fails: a failure for one subject aborts the others. Parameters are stored
  for \<open>sub-S003\<close> only. The replay of \<open>sub-S003\<close> alone reads and exports its recording;
  run after \<open>sub-S002\<close>, whose parameter file is missing, it never starts.
\<close>

theorem drivers_isolation_counterexample:
  "(let w = snd (save_ajdc_parameters (demo_ajdc demo_config) [0] []
                   ''/data/ajdc/_PARAMETERS_/_BAND_1_80_/_CLEAN_'' ''sub-S003parameters_AJDC.npz'' demo_world);
        (r, w') = denoise_ajdc demo_env [''sub-S002'', ''sub-S003''] [''_CLEAN_''] ''_BAND_1_80_''
                    demo_paths ''BetaPark'' w;
        (r3, w3) = denoise_ajdc demo_env [''sub-S003''] [''_CLEAN_''] ''_BAND_1_80_''
                    demo_paths ''BetaPark'' w
    in r = Inl FileNotFoundError \<and> loaded w' = [] \<and> exported w' = [] \<and>
       r3 = Inr () \<and> loaded w3 = [(''/data/raw/sub-S003'', ''sub-S003_2-1.vhdr'')] \<and>
       map (\<lambda>(p, s). last p) (exported w3) = [''sub-S003_2-1_denoised.vhdr''])"
  by code_simp
text \<open>
  Claim C6 (amended). The output of a replay has the reference timestamp of the input.
  Its annotations are those of the input cropped to the output's duration: every
  annotation that lies within the output is carried as it is (same onset, duration and
  description) and in order, so an input whose annotations all lie within the output keeps
  them unmodified; an annotation that begins after the end of the output is omitted and
  one that reaches past it is shortened.
\<close>

theorem replay_annotations:
  assumes "replay a bad_sources signal = Inr signal_corrected"
  shows "meas_date signal_corrected = meas_date signal \<and>
         annotations signal_corrected =
           crop_annotations 0 (raw_duration signal_corrected) (annotations signal) \<and>
         subseq (filter (lies_within (raw_duration signal_corrected)) (annotations signal))
           (annotations signal_corrected) \<and>
         (list_all (lies_within (raw_duration signal_corrected)) (annotations signal) \<longrightarrow>
            annotations signal_corrected = annotations signal)"
proof -
  obtain epochs raws joined where
    raws: "map_raising (denoise_epoch a bad_sources signal) epochs = Inr raws" and
    joined: "concatenate_raws raws = Inr joined" and
    out: "signal_corrected = set_annotations joined (annotations signal)"
    using assms by (auto simp: replay_def bind_def split: sum.splits)
  obtain r rs where r: "raws = r # rs" "joined = r\<lparr>data := foldl hstack (data r) (map data rs)\<rparr>"
    using joined by (auto simp: concatenate_raws_def split: list.splits)
  have "r \<in> set raws" using r(1) by simp
  with raws have "\<exists>X\<in>set epochs. denoise_epoch a bad_sources signal X = Inr r"
    by (rule map_raising_all_D)
  then have md: "meas_date r = meas_date signal"
    using denoise_epoch_info by blast
  have dur: "raw_duration signal_corrected = raw_duration joined"
    using out by (simp add: set_annotations_def raw_duration_def n_times_def)
  have ann: "annotations signal_corrected =
      crop_annotations 0 (raw_duration signal_corrected) (annotations signal)"
    using out dur by (simp add: set_annotations_def)
  have "meas_date signal_corrected = meas_date signal"
    using out r(2) md by (simp add: set_annotations_def)
  moreover have "subseq (filter (lies_within (raw_duration signal_corrected)) (annotations signal))
           (annotations signal_corrected)"
    unfolding ann by (rule crop_annotations_subseq)
  moreover have "annotations signal_corrected = annotations signal"
    if "list_all (lies_within (raw_duration signal_corrected)) (annotations signal)"
    using that ann by (simp add: crop_annotations_all_within)
  ultimately show ?thesis using ann by blast
qed
text \<open>
  Two replays of the installation's recording (1.25 s, output 1 s): a comment from 0.75 s
  to 1.25 s is shortened to end at 1 s; with the stimulus at 0.25 s alone the annotations
  are unchanged.
\<close>

theorem replay_annotations_witness:
  "replay (demo_ajdc demo_config) [0]
     (demo_signal\<lparr>annotations := [\<lparr>onset = 1 / 4, duration = 0, description = ''Stimulus/S  1''\<rparr>,
                                   \<lparr>onset = 3 / 4, duration = 1 / 2, description = ''Comment/late''\<rparr>]\<rparr>) =
     Inr \<lparr>ch_names = [''Fp1'', ''Fp2''], sfreq = 4, meas_date = Some 1717200000,
          data = [[- 6, - 7, - 8, - 9], [6, 7, 8, 9]],
          annotations = [\<lparr>onset = 1 / 4, duration = 0, description = ''Stimulus/S  1''\<rparr>,
                         \<lparr>onset = 3 / 4, duration = 1 / 4, description = ''Comment/late''\<rparr>]\<rparr> \<and>
   replay (demo_ajdc demo_config) [0]
     (demo_signal\<lparr>annotations := [\<lparr>onset = 1 / 4, duration = 0, description = ''Stimulus/S  1''\<rparr>]\<rparr>) =
     Inr \<lparr>ch_names = [''Fp1'', ''Fp2''], sfreq = 4, meas_date = Some 1717200000,
          data = [[- 6, - 7, - 8, - 9], [6, 7, 8, 9]],
          annotations = [\<lparr>onset = 1 / 4, duration = 0, description = ''Stimulus/S  1''\<rparr>]\<rparr> \<and>
   list_all (lies_within 1) [\<lparr>onset = 1 / 4, duration = 0, description = ''Stimulus/S  1''\<rparr>] \<and>
   meas_date demo_signal = Some 1717200000"
proof -
  let ?s1 = "\<lparr>onset = 1 / 4, duration = 0, description = ''Stimulus/S  1''\<rparr>"
  let ?late = "\<lparr>onset = 3 / 4, duration = 1 / 2, description = ''Comment/late''\<rparr>"
  let ?cut = "\<lparr>onset = 3 / 4, duration = 1 / 4, description = ''Comment/late''\<rparr>"
  let ?out = "\<lambda>anns. \<lparr>ch_names = [''Fp1'', ''Fp2''], sfreq = 4, meas_date = Some 1717200000,
          data = [[- 6, - 7, - 8, - 9], [6, 7, 8, 9 :: int]], annotations = anns\<rparr>"
  have r1: "replay (demo_ajdc demo_config) [0] (demo_signal\<lparr>annotations := [?s1, ?late]\<rparr>) =
      Inr (?out [?s1, ?cut])"
    by code_simp
  have r2: "replay (demo_ajdc demo_config) [0] (demo_signal\<lparr>annotations := [?s1]\<rparr>) =
      Inr (?out [?s1])"
    by code_simp
  have w: "list_all (lies_within 1) [?s1]" by code_simp
  have d: "raw_duration (?out [?s1]) = 1" by code_simp
  have m: "meas_date demo_signal = Some 1717200000" by (simp add: demo_signal_def)
  from replay_annotations[OF r1] have "meas_date (?out [?s1, ?cut]) =
      meas_date (demo_signal\<lparr>annotations := [?s1, ?late]\<rparr>)" by blast
  moreover from replay_annotations[OF r2] w d
  have "annotations (?out [?s1]) = annotations (demo_signal\<lparr>annotations := [?s1]\<rparr>)"
    by simp
  ultimately show ?thesis using r1 r2 w m by blast
qed
text \<open>
  As stated, C6 fails: the stimulus at 1.125 s lies in the part of the recording after the
  last full epoch and is not among the annotations of the output.
\<close>

theorem replay_annotations_counterexample:
  "annotations demo_signal =
     [\<lparr>onset = 1 / 4, duration = 0, description = ''Stimulus/S  1''\<rparr>,
      \<lparr>onset = 9 / 8, duration = 0, description = ''Stimulus/S  2''\<rparr>] \<and>
   raw_duration demo_signal = 5 / 4 \<and>
   map_sum id raw_duration (replay (demo_ajdc demo_config) [0] demo_signal) = Inr 1 \<and>
   map_sum id annotations (replay (demo_ajdc demo_config) [0] demo_signal) =
     Inr [\<lparr>onset = 1 / 4, duration = 0, description = ''Stimulus/S  1''\<rparr>] \<and>
   map_sum id annotations (replay (demo_ajdc demo_config) [0] demo_signal) \<noteq>
     Inr (annotations demo_signal)"
  by code_simp
text \<open>
  Claim C7. With no parameter file for the subject, condition and band,
  \<open>process_denoising\<close> raises \<open>FileNotFoundError\<close> at the load and leaves everything as
  it was: the working directory is not changed and no recording is read or exported.
\<close>

theorem missing_parameters_stop_replay:
  assumes "parameters w (path_components (parameters_path_of path frequencie_file condition subject)) = None"
  shows "process_denoising env subject condition frequencie_file path w = (Inl FileNotFoundError, w)"
  using assms by (simp add: process_denoising_def np_load_def)
text \<open>
  The installation has a recording of \<open>sub-S002\<close> and no parameter file.
\<close>

theorem missing_parameters_stop_replay_witness:
  "parameters demo_world
     (path_components (parameters_path_of demo_paths ''_BAND_1_80_'' ''_CLEAN_'' ''sub-S002'')) = None \<and>
   listdir demo_world ''/data/raw/sub-S002'' = Some [''sub-S002_2-1.vhdr''] \<and>
   process_denoising demo_env ''sub-S002'' ''_CLEAN_'' ''_BAND_1_80_'' demo_paths demo_world =
     (Inl FileNotFoundError, demo_world) \<and>
   loaded demo_world = [] \<and> exported demo_world = []"
proof -
  have h: "parameters demo_world
     (path_components (parameters_path_of demo_paths ''_BAND_1_80_'' ''_CLEAN_'' ''sub-S002'')) = None"
    by (simp add: demo_world_def)
  have l: "listdir demo_world ''/data/raw/sub-S002'' = Some [''sub-S002_2-1.vhdr'']"
    "loaded demo_world = []" "exported demo_world = []"
    by (simp_all add: demo_world_def)
  show ?thesis
    using missing_parameters_stop_replay[OF h, of demo_env] h l by blast
qed
text \<open>
  Claim C9. A suppression list that contains an index twice gives the same reconstruction
  as the list with one of the two occurrences removed (an out-of-range index raises
  \<open>IndexError\<close> in both); so does the list calibration builds when the operator names the
  same component as a blink and as a saccade.
\<close>

theorem duplicate_suppression:
  "inverse_transform a X (xs @ i # ys @ i # zs) = inverse_transform a X (xs @ i # ys @ zs) \<and>
   inverse_transform a X (bad_sources_of_calibration (xs @ [i]) (i # zs)) =
     inverse_transform a X (bad_sources_of_calibration xs (i # zs))"
proof
  show "inverse_transform a X (xs @ i # ys @ i # zs) = inverse_transform a X (xs @ i # ys @ zs)"
    by (rule inverse_transform_same_set) auto
  show "inverse_transform a X (bad_sources_of_calibration (xs @ [i]) (i # zs)) =
     inverse_transform a X (bad_sources_of_calibration xs (i # zs))"
    unfolding bad_sources_of_calibration_def by (rule inverse_transform_same_set) auto
qed
text \<open>
  On the installation's filters, suppressing source 1 twice or once removes the second
  channel's contribution; suppressing nothing gives back the channels.
\<close>

theorem duplicate_suppression_witness:
  "inverse_transform (demo_ajdc demo_config) [[7, 9], [6, 7]] [1, 1] =
     inverse_transform (demo_ajdc demo_config) [[7, 9], [6, 7]] [1] \<and>
   inverse_transform (demo_ajdc demo_config) [[7, 9], [6, 7]] [1] = Inr [[7, 9], [0, 0]] \<and>
   inverse_transform (demo_ajdc demo_config) [[7, 9], [6, 7]] [] = Inr [[1, 2], [6, 7]]"
proof -
  have a: "inverse_transform (demo_ajdc demo_config) [[7, 9], [6, 7]] [1] = Inr [[7, 9], [0, 0]]"
    "inverse_transform (demo_ajdc demo_config) [[7, 9], [6, 7]] [] = Inr [[1, 2], [6, 7]]"
    by code_simp+
  from duplicate_suppression[of "demo_ajdc demo_config" "[[7, 9], [6, 7]]" "[]" 1 "[]" "[]"]
  have "inverse_transform (demo_ajdc demo_config) [[7, 9], [6, 7]] [1, 1] =
     inverse_transform (demo_ajdc demo_config) [[7, 9], [6, 7]] [1]" by simp
  with a show ?thesis by blast
qed
text \<open>
  Claim C10. The suppression list of the replay depends on \<open>blinks_components\<close> alone:
  changing \<open>saccades_components\<close> changes nothing. The extraction succeeds only when that
  array has exactly one element, and then returns it; with two or more elements it raises
  \<open>ValueError\<close>, and \<open>process_denoising\<close> stops there, before the working directory is
  changed or any recording read. With exactly one element \<open>process_denoising\<close> goes on:
  it is the loop over the \<open>.vhdr\<close> files of the subject's directory that denoises each
  file with the restored object and the list \<open>blinks_components\<close>, and a file that is
  read, prepared, filtered and replayed without exception is exported as the replay of the
  filtered recording with that list.
\<close>

theorem replay_needs_one_blink:
  "bad_sources_of_replay (r\<lparr>saccades_components := saccade\<rparr>) = bad_sources_of_replay r \<and>
   (bad_sources_of_replay r = Inr bad_sources \<longrightarrow>
      length (blinks_components r) = 1 \<and> bad_sources = blinks_components r) \<and>
   (length (blinks_components r) = 1 \<longrightarrow> bad_sources_of_replay r = Inr (blinks_components r)) \<and>
   (2 \<le> length (blinks_components r) \<and>
    parameters w (path_components (parameters_path_of path frequencie_file condition subject)) = Some r \<longrightarrow>
      process_denoising env subject condition frequencie_file path w = (Inl ValueError, w)) \<and>
   (length (blinks_components r) = 1 \<and>
    parameters w (path_components (parameters_path_of path frequencie_file condition subject)) = Some r \<and>
    listdir w (raw_data path @ subject) = Some files \<longrightarrow>
      process_denoising env subject condition frequencie_file path w =
      for_each
        (denoise_file env (restore r) (blinks_components r) subject condition frequencie_file path)
        (filter (contains ''.vhdr'') files) (w\<lparr>cwd := raw_data path @ subject\<rparr>)) \<and>
   (recordings w (cwd w) file = Some signal \<and>
    preparing_data_BetaPark env (extract_number subject) True signal = Inr prepared \<and>
    preprocessing env True (Some (1 / 2)) True prepared = Inr filtered \<and>
    replay a suppressed filtered = Inr signal_corrected \<longrightarrow>
      denoise_file env a suppressed subject condition frequencie_file path file w =
      (Inr (),
       w\<lparr>loaded := loaded w @ [(cwd w, file)],
         exported := exported w @
           [(path_components
               (os_path_join
                  (ajdc_path path @ ''/_DENOISING_EEG_/'' @ frequencie_file @ ''/'' @ condition @
                   ''/'' @ subject)
                  (takeWhile (\<lambda>c. c \<noteq> CHR ''.'') file @ ''_denoised.vhdr'')),
             signal_corrected)]\<rparr>))"
proof (intro conjI impI)
  show "bad_sources_of_replay (r\<lparr>saccades_components := saccade\<rparr>) = bad_sources_of_replay r"
    by (simp add: bad_sources_of_replay_def)
next
  assume "bad_sources_of_replay r = Inr bad_sources"
  then obtain b where "blinks_components r = [b]" "bad_sources = [b]"
    by (auto simp: bad_sources_of_replay_cases split: list.splits)
  then show "length (blinks_components r) = 1" "bad_sources = blinks_components r"
    by simp_all
next
  assume "length (blinks_components r) = 1"
  then obtain b where "blinks_components r = [b]"
    by (cases "blinks_components r") auto
  then show "bad_sources_of_replay r = Inr (blinks_components r)"
    by (simp add: bad_sources_of_replay_cases)
next
  assume h: "2 \<le> length (blinks_components r) \<and>
    parameters w (path_components (parameters_path_of path frequencie_file condition subject)) = Some r"
  then have "bad_sources_of_replay r = Inl ValueError"
    by (auto simp: bad_sources_of_replay_cases split: list.splits)
  with h show "process_denoising env subject condition frequencie_file path w = (Inl ValueError, w)"
    by (simp add: process_denoising_def np_load_def)
next
  assume h: "length (blinks_components r) = 1 \<and>
    parameters w (path_components (parameters_path_of path frequencie_file condition subject)) = Some r \<and>
    listdir w (raw_data path @ subject) = Some files"
  then obtain b where "blinks_components r = [b]"
    by (cases "blinks_components r") auto
  then have "bad_sources_of_replay r = Inr (blinks_components r)"
    by (simp add: bad_sources_of_replay_cases)
  with h show "process_denoising env subject condition frequencie_file path w =
      for_each
        (denoise_file env (restore r) (blinks_components r) subject condition frequencie_file path)
        (filter (contains ''.vhdr'') files) (w\<lparr>cwd := raw_data path @ subject\<rparr>)"
    by (simp add: process_denoising_def np_load_def os_chdir_def os_listdir_def)
next
  assume "recordings w (cwd w) file = Some signal \<and>
    preparing_data_BetaPark env (extract_number subject) True signal = Inr prepared \<and>
    preprocessing env True (Some (1 / 2)) True prepared = Inr filtered \<and>
    replay a suppressed filtered = Inr signal_corrected"
  then show "denoise_file env a suppressed subject condition frequencie_file path file w =
      (Inr (),
       w\<lparr>loaded := loaded w @ [(cwd w, file)],
         exported := exported w @
           [(path_components
               (os_path_join
                  (ajdc_path path @ ''/_DENOISING_EEG_/'' @ frequencie_file @ ''/'' @ condition @
                   ''/'' @ subject)
                  (takeWhile (\<lambda>c. c \<noteq> CHR ''.'') file @ ''_denoised.vhdr'')),
             signal_corrected)]\<rparr>)"
    by (simp add: denoise_file_def load_data_def export_signal_def)
qed

text \<open>
  An archive with the one blink component 1 and the saccade component 0: the replay
  suppresses source 1 only. A parameter file with the two blink components 0 and 1: the
  replay raises.
\<close>

theorem replay_needs_one_blink_witness:
  "bad_sources_of_replay (archive (demo_ajdc demo_config) [1] [0]) = Inr [1] \<and>
   length (blinks_components (archive (demo_ajdc demo_config) [1] [0])) = 1 \<and>
   2 \<le> length (blinks_components (archive (demo_ajdc demo_config) [0, 1] [])) \<and>
   parameters
     (snd (save_ajdc_parameters (demo_ajdc demo_config) [0, 1] []
             ''/data/ajdc/_PARAMETERS_/_BAND_1_80_/_CLEAN_'' ''sub-S002parameters_AJDC.npz'' demo_world))
     (path_components (parameters_path_of demo_paths ''_BAND_1_80_'' ''_CLEAN_'' ''sub-S002'')) =
     Some (archive (demo_ajdc demo_config) [0, 1] []) \<and>
   process_denoising demo_env ''sub-S002'' ''_CLEAN_'' ''_BAND_1_80_'' demo_paths
     (snd (save_ajdc_parameters (demo_ajdc demo_config) [0, 1] []
             ''/data/ajdc/_PARAMETERS_/_BAND_1_80_/_CLEAN_'' ''sub-S002parameters_AJDC.npz'' demo_world)) =
     (Inl ValueError,
      snd (save_ajdc_parameters (demo_ajdc demo_config) [0, 1] []
             ''/data/ajdc/_PARAMETERS_/_BAND_1_80_/_CLEAN_'' ''sub-S002parameters_AJDC.npz'' demo_world)) \<and>
   parameters demo_calibrated
     (path_components (parameters_path_of demo_paths ''_BAND_1_80_'' ''_CLEAN_'' ''sub-S002'')) =
     Some (archive (demo_ajdc demo_config) [1] [0]) \<and>
   listdir demo_calibrated (raw_data demo_paths @ ''sub-S002'') = Some [''sub-S002_2-1.vhdr''] \<and>
   process_denoising demo_env ''sub-S002'' ''_CLEAN_'' ''_BAND_1_80_'' demo_paths demo_calibrated =
     for_each
       (denoise_file demo_env (restore (archive (demo_ajdc demo_config) [1] [0]))
          (blinks_components (archive (demo_ajdc demo_config) [1] [0]))
          ''sub-S002'' ''_CLEAN_'' ''_BAND_1_80_'' demo_paths)
       (filter (contains ''.vhdr'') [''sub-S002_2-1.vhdr''])
       (demo_calibrated\<lparr>cwd := raw_data demo_paths @ ''sub-S002''\<rparr>) \<and>
   recordings (demo_calibrated\<lparr>cwd := ''/data/raw/sub-S002''\<rparr>)
     (cwd (demo_calibrated\<lparr>cwd := ''/data/raw/sub-S002''\<rparr>)) ''sub-S002_2-1.vhdr'' =
     Some demo_signal \<and>
   replay (restore (archive (demo_ajdc demo_config) [1] [0])) [1] demo_signal =
     Inr \<lparr>ch_names = [''Fp1'', ''Fp2''], sfreq = 4, meas_date = Some 1717200000,
          data = [[7, 9, 11, 13], [0, 0, 0, 0]],
          annotations = [\<lparr>onset = 1 / 4, duration = 0, description = ''Stimulus/S  1''\<rparr>]\<rparr> \<and>
   denoise_file demo_env (restore (archive (demo_ajdc demo_config) [1] [0])) [1]
       ''sub-S002'' ''_CLEAN_'' ''_BAND_1_80_'' demo_paths ''sub-S002_2-1.vhdr''
       (demo_calibrated\<lparr>cwd := ''/data/raw/sub-S002''\<rparr>) =
     (Inr (),
      demo_calibrated
        \<lparr>cwd := ''/data/raw/sub-S002'',
         loaded := loaded (demo_calibrated\<lparr>cwd := ''/data/raw/sub-S002''\<rparr>) @
           [(cwd (demo_calibrated\<lparr>cwd := ''/data/raw/sub-S002''\<rparr>), ''sub-S002_2-1.vhdr'')],
         exported := exported (demo_calibrated\<lparr>cwd := ''/data/raw/sub-S002''\<rparr>) @
           [(path_components
               (os_path_join
                  (ajdc_path demo_paths @ ''/_DENOISING_EEG_/'' @ ''_BAND_1_80_'' @ ''/'' @ ''_CLEAN_'' @
                   ''/'' @ ''sub-S002'')
                  (takeWhile (\<lambda>c. c \<noteq> CHR ''.'') ''sub-S002_2-1.vhdr'' @ ''_denoised.vhdr'')),
             \<lparr>ch_names = [''Fp1'', ''Fp2''], sfreq = 4, meas_date = Some 1717200000,
              data = [[7, 9, 11, 13], [0, 0, 0, 0]],
              annotations = [\<lparr>onset = 1 / 4, duration = 0, description = ''Stimulus/S  1''\<rparr>]\<rparr>)]\<rparr>) \<and>
   map (\<lambda>(p, s). (last p, data s))
     (exported (snd (process_denoising demo_env ''sub-S002'' ''_CLEAN_'' ''_BAND_1_80_'' demo_paths
                       demo_calibrated))) =
     [(''sub-S002_2-1_denoised.vhdr'', [[7, 9, 11, 13], [0, 0, 0, 0]])]"
proof -
  let ?w = "snd (save_ajdc_parameters (demo_ajdc demo_config) [0, 1] []
             ''/data/ajdc/_PARAMETERS_/_BAND_1_80_/_CLEAN_'' ''sub-S002parameters_AJDC.npz'' demo_world)"
  let ?r = "archive (demo_ajdc demo_config) [1] [0]"
  let ?c = "demo_calibrated\<lparr>cwd := ''/data/raw/sub-S002''\<rparr>"
  let ?out = "\<lparr>ch_names = [''Fp1'', ''Fp2''], sfreq = 4, meas_date = Some 1717200000,
          data = [[7, 9, 11, 13], [0, 0, 0, 0 :: int]],
          annotations = [\<lparr>onset = 1 / 4, duration = 0, description = ''Stimulus/S  1''\<rparr>]\<rparr>"
  have one: "length (blinks_components ?r) = 1"
    by (simp add: archive_def)
  have two: "2 \<le> length (blinks_components (archive (demo_ajdc demo_config) [0, 1] []))"
    by (simp add: archive_def)
  have stored: "parameters ?w
     (path_components (parameters_path_of demo_paths ''_BAND_1_80_'' ''_CLEAN_'' ''sub-S002'')) =
     Some (archive (demo_ajdc demo_config) [0, 1] [])"
    by code_simp
  have stored1: "parameters demo_calibrated
     (path_components (parameters_path_of demo_paths ''_BAND_1_80_'' ''_CLEAN_'' ''sub-S002'')) =
     Some ?r"
    by code_simp
  have ls: "listdir demo_calibrated (raw_data demo_paths @ ''sub-S002'') = Some [''sub-S002_2-1.vhdr'']"
    by code_simp
  have rec: "recordings ?c (cwd ?c) ''sub-S002_2-1.vhdr'' = Some demo_signal"
    by (simp add: demo_calibrated_def save_ajdc_parameters_def demo_world_def)
  have prep: "preparing_data_BetaPark demo_env (extract_number ''sub-S002'') True demo_signal =
      Inr demo_signal"
    "preprocessing demo_env True (Some (1 / 2)) True demo_signal = Inr demo_signal"
    by (simp_all add: demo_env_def)
  have rep: "replay (restore ?r) [1] demo_signal = Inr ?out"
    by code_simp
  have ex: "map (\<lambda>(p, s). (last p, data s))
     (exported (snd (process_denoising demo_env ''sub-S002'' ''_CLEAN_'' ''_BAND_1_80_'' demo_paths
                       demo_calibrated))) =
     [(''sub-S002_2-1_denoised.vhdr'', [[7, 9, 11, 13], [0, 0, 0, 0]])]"
    by code_simp
  have r1: "bad_sources_of_replay ?r = Inr [1]"
    using replay_needs_one_blink[where r = ?r] one
    by (simp add: archive_def)
  have r2: "process_denoising demo_env ''sub-S002'' ''_CLEAN_'' ''_BAND_1_80_'' demo_paths ?w =
     (Inl ValueError, ?w)"
    using replay_needs_one_blink[where r = "archive (demo_ajdc demo_config) [0, 1] []" and w = ?w
        and path = demo_paths and frequencie_file = "''_BAND_1_80_''" and condition = "''_CLEAN_''"
        and subject = "''sub-S002''" and env = demo_env] two stored
    by blast
  have r3: "process_denoising demo_env ''sub-S002'' ''_CLEAN_'' ''_BAND_1_80_'' demo_paths demo_calibrated =
     for_each
       (denoise_file demo_env (restore ?r) (blinks_components ?r)
          ''sub-S002'' ''_CLEAN_'' ''_BAND_1_80_'' demo_paths)
       (filter (contains ''.vhdr'') [''sub-S002_2-1.vhdr''])
       (demo_calibrated\<lparr>cwd := raw_data demo_paths @ ''sub-S002''\<rparr>)"
    using replay_needs_one_blink[where r = ?r and w = demo_calibrated
        and path = demo_paths and frequencie_file = "''_BAND_1_80_''" and condition = "''_CLEAN_''"
        and subject = "''sub-S002''" and env = demo_env and files = "[''sub-S002_2-1.vhdr'']"]
      one stored1 ls
    by blast
  have r4: "denoise_file demo_env (restore ?r) [1]
       ''sub-S002'' ''_CLEAN_'' ''_BAND_1_80_'' demo_paths ''sub-S002_2-1.vhdr'' ?c =
     (Inr (),
      ?c\<lparr>loaded := loaded ?c @ [(cwd ?c, ''sub-S002_2-1.vhdr'')],
         exported := exported ?c @
           [(path_components
               (os_path_join
                  (ajdc_path demo_paths @ ''/_DENOISING_EEG_/'' @ ''_BAND_1_80_'' @ ''/'' @ ''_CLEAN_'' @
                   ''/'' @ ''sub-S002'')
                  (takeWhile (\<lambda>c. c \<noteq> CHR ''.'') ''sub-S002_2-1.vhdr'' @ ''_denoised.vhdr'')),
             ?out)]\<rparr>)"
    using replay_needs_one_blink[where w = ?c and ?file = "''sub-S002_2-1.vhdr''"
        and signal = demo_signal and env = demo_env and subject = "''sub-S002''"
        and prepared = demo_signal and filtered = demo_signal and a = "restore ?r"
        and suppressed = "[1]" and signal_corrected = ?out and path = demo_paths
        and frequencie_file = "''_BAND_1_80_''" and condition = "''_CLEAN_''"]
      rec prep rep
    by blast
  show ?thesis using one two stored stored1 ls rec rep ex r1 r2 r3 r4 by simp
qed

end
